theory Spec2Isabelle
  imports Main "HOL-Library.Sublist" "HOL-Library.AList"
begin

section \<open>Python values, errors and string helpers\<close>

text \<open>
  The values that travel through \<^verbatim>\<open>BAC0/core/devices/Points.py\<close> and
  \<^verbatim>\<open>Device.py\<close>. Python is dynamically typed, so one datatype holds them all.
  \<open>PBinaryPV True\<close> is \<^verbatim>\<open>BinaryPV.active\<close>, \<open>PBinaryPV False\<close> is
  \<^verbatim>\<open>BinaryPV.inactive\<close>. \<open>PCoroutine f\<close> is the coroutine object that calling
  the \<^verbatim>\<open>async def\<close> function \<open>f\<close> returns when the call is not awaited: its body has
  not run. \<open>PFormatted a b\<close> stands for the text \<^verbatim>\<open>"{}: {}".format(a, b)\<close>.
  Text is ASCII.
\<close>

datatype pyval =
    PNone
  | PBool bool
  | PInt int
  | PStr string
  | PList "pyval list"
  | PBinaryPV bool
  | PCoroutine string
  | PFormatted pyval pyval

datatype error =
    ValueError string
  | IndexError string
  | TypeError
  | AttributeError
  | RuntimeError string
  | NotImplementedError string
  | FileNotFoundError string
  | BadDeviceDefinition string
  | DeviceNotConnected string
  | NoResponseFromController
  | SegmentationNotSupported
  | UnknownPropertyError
  | WritePropertyException
  | RemovedPointException
  | OtherException string

text \<open>Python's \<^verbatim>\<open>bool(x)\<close>: what \<^verbatim>\<open>if x\<close>, \<^verbatim>\<open>x or y\<close> and \<^verbatim>\<open>not x\<close> test.\<close>

fun truthy :: "pyval \<Rightarrow> bool" where
  "truthy PNone = False"
| "truthy (PBool b) = b"
| "truthy (PInt i) = (i \<noteq> 0)"
| "truthy (PStr s) = (s \<noteq> [])"
| "truthy (PList xs) = (xs \<noteq> [])"
| "truthy (PBinaryPV b) = b"
| "truthy (PCoroutine f) = True"
| "truthy (PFormatted a b) = True"

definition lower_char :: "char \<Rightarrow> char" where
  "lower_char c =
     (case map_of (zip ''ABCDEFGHIJKLMNOPQRSTUVWXYZ'' ''abcdefghijklmnopqrstuvwxyz'') c of
        Some l \<Rightarrow> l
      | None \<Rightarrow> c)"

text \<open>\<^verbatim>\<open>s.lower()\<close> on ASCII text.\<close>

definition lower :: "string \<Rightarrow> string" where
  "lower s = map lower_char s"

text \<open>
  \<^verbatim>\<open>str(value).lower() == word\<close> for a lower-case \<open>word\<close> of letters. The text of
  \<^verbatim>\<open>None\<close>, of a number, of a boolean, of a list, of an enumeration member, of a
  coroutine object never lower-cases to \<^verbatim>\<open>"auto"\<close> or \<^verbatim>\<open>"stop"\<close>; only a string can.
\<close>

fun str_lower_is :: "pyval \<Rightarrow> string \<Rightarrow> bool" where
  "str_lower_is (PStr s) word = (lower s = word)"
| "str_lower_is _ word = False"

text \<open>
  The values that are integers: an \<^verbatim>\<open>int\<close>, a \<^verbatim>\<open>bool\<close> (\<^verbatim>\<open>False\<close> is 0,
  \<^verbatim>\<open>True\<close> is 1) and a \<^verbatim>\<open>BinaryPV\<close> (\<^verbatim>\<open>inactive\<close> is 0, \<^verbatim>\<open>active\<close> is 1).
\<close>

fun as_int :: "pyval \<Rightarrow> int option" where
  "as_int (PInt i) = Some i"
| "as_int (PBool b) = Some (if b then 1 else 0)"
| "as_int (PBinaryPV b) = Some (if b then 1 else 0)"
| "as_int _ = None"

text \<open>
  Python's \<^verbatim>\<open>==\<close>: integers compare by their number, whatever their class, lists
  compare element by element, everything else compares with its own kind only.
\<close>

fun py_eq :: "pyval \<Rightarrow> pyval \<Rightarrow> bool" where
  "py_eq (PList xs) (PList ys) = list_all2 py_eq xs ys"
| "py_eq a b = (case (as_int a, as_int b) of (Some x, Some y) \<Rightarrow> x = y | _ \<Rightarrow> a = b)"

text \<open>\<^verbatim>\<open>sub in s\<close> for two strings: case-sensitive substring test.\<close>

fun py_in :: "string \<Rightarrow> string \<Rightarrow> bool" where
  "py_in sub [] = (sub = [])"
| "py_in sub (c # cs) = (prefix sub (c # cs) \<or> py_in sub cs)"

text \<open>\<^verbatim>\<open>xs[i:]\<close>: a negative start counts from the end, and is clamped at the front.\<close>

definition py_slice_from :: "int \<Rightarrow> 'a list \<Rightarrow> 'a list" where
  "py_slice_from i xs =
     (if i < 0 then drop (length xs - nat (- i)) xs else drop (nat i) xs)"

text \<open>\<^verbatim>\<open>xs[i]\<close>: negative indices count from the end; out of range raises.\<close>

definition py_index :: "'a list \<Rightarrow> int \<Rightarrow> error + 'a" where
  "py_index xs i =
     (if 0 \<le> i \<and> i < int (length xs) then Inr (xs ! nat i)
      else if i < 0 \<and> - int (length xs) \<le> i then Inr (xs ! nat (int (length xs) + i))
      else Inl (IndexError ''list index out of range''))"

section \<open>The network collaborator\<close>

text \<open>
  Requests are the whitespace-delimited texts
  \<^verbatim>\<open>"<address> <objectType> <instance> <property> [<value>]"\<close>, kept here as their
  fields. The collaborator itself (\<^verbatim>\<open>device.properties.network\<close>) is outside the
  repository's files: it is a parameter, a function from the number of calls made so far
  and the request to an answer or an exception, so that the same request may be answered
  differently over time. \<open>NetRegisterDevice\<close> is the call
  \<^verbatim>\<open>network.register_device(self)\<close> of a device.
\<close>

datatype net_call =
    NetRead string string int string
  | NetSim string string int string pyval
  | NetRelease string string int string string
  | NetReadDevice "string option" "int option" string
  | NetRegisterDevice

type_synonym network = "nat \<Rightarrow> net_call \<Rightarrow> error + pyval"

text \<open>
  A task handed to \<^verbatim>\<open>asyncio.create_task\<close>: the coroutine
  \<^verbatim>\<open>self.write(value, prop=..., priority=...)\<close> with its arguments (the default
  priority of \<^verbatim>\<open>write\<close> is the string \<^verbatim>\<open>"16"\<close>), or the coroutine
  \<^verbatim>\<open>self._poll(command=..., delay=...)\<close> with its arguments.
\<close>

datatype task = WriteTask pyval string pyval | PollTask pyval int

datatype poll_event = PollCreated int | PollStarted int | PollStopped int

section \<open>Points\<close>

type_synonym time = int

text \<open>Timestamps are microseconds; \<^verbatim>\<open>Point._cache_delta = timedelta(seconds=1)\<close>.\<close>

definition cache_delta :: time where
  "cache_delta = 1000000"

datatype prio_array = PA_None | PA_False | PA_List "pyval list"

datatype point_class =
    NumericPoint | BooleanPoint | EnumPoint | StringPoint | DateTimePoint
  | NumericPointOffline | BooleanPointOffline | EnumPointOffline | StringPointOffline

text \<open>
  A \<^verbatim>\<open>Point\<close> object. \<open>dev_address\<close>, \<open>dev_vendor_id\<close> and \<open>database\<close> are what
  the point reads through its back-reference \<^verbatim>\<open>self.properties.device.properties\<close>
  (\<open>database\<close>: whether \<^verbatim>\<open>network.database\<close> is set). \<open>polling_task\<close> holds the delay
  of the \<^verbatim>\<open>Poll\<close> object in \<^verbatim>\<open>_polling_task.task\<close>. The last four fields log what the
  point did to its collaborators: network calls, rows written to the database, tasks
  created, and what happened to \<^verbatim>\<open>Poll\<close> objects.
\<close>

record point =
  pclass :: point_class
  ptype :: string
  paddress :: int
  pname :: string
  units_state :: pyval
  dev_address :: string
  dev_vendor_id :: int
  database :: bool
  simulated :: "bool \<times> pyval"
  overridden :: "bool \<times> pyval"
  priority_array :: prio_array
  history_size :: "int option"
  history_timestamp :: "time list"
  history_value :: "pyval list"
  cache_previous_read :: "time option \<times> pyval"
  polling_task :: "int option"
  polling_running :: bool
  net_log :: "net_call list"
  db_log :: "string list"
  tasks :: "task list"
  poll_log :: "poll_event list"

text \<open>
  \<^verbatim>\<open>Point.__init__\<close> (lines 100-145); \<open>now\<close> is \<^verbatim>\<open>datetime.now()\<close>. The history
  starts with one sample: the present value given to the constructor. The constructors
  of \<^verbatim>\<open>StringPoint\<close> (lines 1117-1137) and \<^verbatim>\<open>DateTimePoint\<close> (lines 1190-1210) do
  not hand their \<^verbatim>\<open>units_state\<close> on, so that it stays \<^verbatim>\<open>None\<close> there.
\<close>

definition Point_init ::
  "point_class \<Rightarrow> string \<Rightarrow> int \<Rightarrow> bool \<Rightarrow> string \<Rightarrow> int \<Rightarrow> string \<Rightarrow> pyval \<Rightarrow> pyval
     \<Rightarrow> int option \<Rightarrow> time \<Rightarrow> point" where
  "Point_init cls daddr vendor db pointType pointAddress pointName presentValue units hsize now =
     \<lparr> pclass = cls, ptype = pointType, paddress = pointAddress, pname = pointName,
       units_state = (if cls = StringPoint \<or> cls = DateTimePoint then PNone else units),
       dev_address = daddr, dev_vendor_id = vendor, database = db,
       simulated = (False, PInt 0), overridden = (False, PInt 0),
       priority_array = PA_None, history_size = hsize,
       history_timestamp = [] @ [now], history_value = [presentValue],
       cache_previous_read = (None, PNone),
       polling_task = None, polling_running = False,
       net_log = [], db_log = [], tasks = [], poll_log = [] \<rparr>"

text \<open>One call of a method of the network collaborator: logged, then answered.\<close>

definition net_call :: "network \<Rightarrow> point \<Rightarrow> net_call \<Rightarrow> point \<times> (error + pyval)" where
  "net_call net p req = (p\<lparr>net_log := net_log p @ [req]\<rparr>, net (length (net_log p)) req)"

text \<open>
  \<^verbatim>\<open>Point.value\<close> (lines 147-172). \<open>now1\<close> is the clock when the cache is tested,
  \<open>now2\<close> the clock when the answer is stored.
\<close>

definition Point_value :: "network \<Rightarrow> point \<Rightarrow> time \<Rightarrow> time \<Rightarrow> point \<times> (error + pyval)" where
  "Point_value net p now1 now2 =
     (if (case fst (cache_previous_read p) of
            None \<Rightarrow> False
          | Some ts \<Rightarrow> now1 - ts < cache_delta)
      then (p, Inr (snd (cache_previous_read p)))
      else
        (case net_call net p (NetRead (dev_address p) (ptype p) (paddress p) ''presentValue'') of
           (p', Inl e) \<Rightarrow> (p', Inl e)
         | (p', Inr res) \<Rightarrow> (p'\<lparr>cache_previous_read := (Some now2, res)\<rparr>, Inr res)))"

text \<open>
  \<^verbatim>\<open>Point._trend\<close> (lines 278-302). The slices cannot raise and the two lists are cut
  alike, so the \<^verbatim>\<open>except\<close> branch, which only logs, has no effect on the point.
\<close>

definition trend :: "point \<Rightarrow> pyval \<Rightarrow> time \<Rightarrow> point" where
  "trend p res now =
     (let p1 = p\<lparr>history_timestamp := history_timestamp p @ [now]\<rparr>;
          p2 = p1\<lparr>history_value := history_value p1 @ [res]\<rparr>;
          p3 = (if database p2 then p2\<lparr>db_log := db_log p2 @ [pname p2]\<rparr> else p2)
      in case history_size p3 of
           None \<Rightarrow> p3
         | Some hs \<Rightarrow>
             (let p4 = (if hs < 1 then p3\<lparr>history_size := Some 1\<rparr> else p3);
                  hsize = (if hs < 1 then 1 else hs)
              in if int (length (history_timestamp p4)) \<ge> hsize
                 then p4\<lparr>history_timestamp := py_slice_from (- hsize) (history_timestamp p4),
                         history_value := py_slice_from (- hsize) (history_value p4)\<rparr>
                 else p4))"

text \<open>
  \<^verbatim>\<open>EnumPoint.get_state\<close> (lines 1050-1055): \<^verbatim>\<open>units_state[v - 1]\<close>, and
  \<^verbatim>\<open>"n/a"\<close> when that raises \<^verbatim>\<open>TypeError\<close> or \<^verbatim>\<open>IndexError\<close>. A list or a
  string can be indexed, by an integer.
\<close>

definition get_state :: "point \<Rightarrow> pyval \<Rightarrow> pyval" where
  "get_state p v =
     (case as_int v of
        None \<Rightarrow> PStr ''n/a''
      | Some i \<Rightarrow>
          (case units_state p of
             PList us \<Rightarrow> (case py_index us (i - 1) of Inr s \<Rightarrow> s | Inl e \<Rightarrow> PStr ''n/a'')
           | PStr us \<Rightarrow> (case py_index us (i - 1) of Inr c \<Rightarrow> PStr [c] | Inl e \<Rightarrow> PStr ''n/a'')
           | _ \<Rightarrow> PStr ''n/a''))"

text \<open>
  What the \<^verbatim>\<open>_trend\<close> method of each class hands to \<^verbatim>\<open>Point._trend\<close>:
  \<^verbatim>\<open>BooleanPoint._trend\<close> (lines 923-925) and \<^verbatim>\<open>EnumPoint._trend\<close>
  (lines 1038-1040) decode the value first, the others pass it on. The offline classes
  inherit the method of their base class (\<^verbatim>\<open>StringPointOffline\<close> derives from
  \<^verbatim>\<open>EnumPoint\<close>).
\<close>

fun history_entry :: "point_class \<Rightarrow> point \<Rightarrow> pyval \<Rightarrow> pyval" where
  "history_entry BooleanPoint p res =
     (if py_eq res (PBinaryPV True) then PStr ''1: active'' else PStr ''0: inactive'')"
| "history_entry BooleanPointOffline p res =
     (if py_eq res (PBinaryPV True) then PStr ''1: active'' else PStr ''0: inactive'')"
| "history_entry EnumPoint p res = PFormatted res (get_state p res)"
| "history_entry EnumPointOffline p res = PFormatted res (get_state p res)"
| "history_entry StringPointOffline p res = PFormatted res (get_state p res)"
| "history_entry _ p res = res"

text \<open>
  The \<^verbatim>\<open>_trend\<close> method by class: \<^verbatim>\<open>DateTimePoint._trend\<close> (lines 1219-1221)
  returns at once, the others end in \<^verbatim>\<open>Point._trend\<close>.
\<close>

definition class_trend :: "point_class \<Rightarrow> point \<Rightarrow> pyval \<Rightarrow> time \<Rightarrow> point" where
  "class_trend cls p res now =
     (if cls = DateTimePoint then p else trend p (history_entry cls p res) now)"

text \<open>
  The \<^verbatim>\<open>value\<close> property of the online classes: \<^verbatim>\<open>NumericPoint.value\<close>
  (lines 801-805), \<^verbatim>\<open>BooleanPoint.value\<close> (lines 927-941),
  \<^verbatim>\<open>EnumPoint.value\<close> (lines 1042-1048) and \<^verbatim>\<open>StringPoint.value\<close>
  (lines 1149-1153) read through \<^verbatim>\<open>Point.value\<close> and then call \<^verbatim>\<open>self._trend\<close>,
  whether the value came from the cache or from the network. \<open>now3\<close> is the clock inside
  \<^verbatim>\<open>_trend\<close>.
\<close>

definition online_value ::
  "network \<Rightarrow> point \<Rightarrow> time \<Rightarrow> time \<Rightarrow> time \<Rightarrow> point \<times> (error + pyval)" where
  "online_value net p now1 now2 now3 =
     (case Point_value net p now1 now2 of
        (p', Inl e) \<Rightarrow> (p', Inl e)
      | (p', Inr res) \<Rightarrow> (class_trend (pclass p) p' res now3, Inr res))"

text \<open>
  \<^verbatim>\<open>DateTimePoint.value\<close> (lines 1223-1230) never calls \<^verbatim>\<open>_trend\<close>. It turns the
  protocol's date and time into a \<^verbatim>\<open>datetime\<close>; that constructor is Python's and may
  raise, so it is the parameter \<open>to_datetime\<close>.
\<close>

definition DateTimePoint_value ::
  "(pyval \<Rightarrow> error + pyval) \<Rightarrow> network \<Rightarrow> point \<Rightarrow> time \<Rightarrow> time \<Rightarrow> point \<times> (error + pyval)" where
  "DateTimePoint_value to_datetime net p now1 now2 =
     (case Point_value net p now1 now2 of
        (p', Inl e) \<Rightarrow> (p', Inl e)
      | (p', Inr res) \<Rightarrow> (p', to_datetime res))"

text \<open>
  The \<^verbatim>\<open>value\<close> property of the offline classes: \<^verbatim>\<open>NumericPointOffline.value\<close>
  (lines 1327-1336), \<^verbatim>\<open>BooleanPointOffline.value\<close> (lines 1373-1379),
  \<^verbatim>\<open>EnumPointOffline.value\<close> (lines 1404-1415) and \<^verbatim>\<open>StringPointOffline.value\<close>
  (lines 1453-1464) return \<^verbatim>\<open>self.lastValue\<close>, or a fixed value when that raises
  \<^verbatim>\<open>IndexError\<close> (and, for the last two, \<^verbatim>\<open>ValueError\<close>). They read nothing from
  the network and never call \<^verbatim>\<open>_trend\<close>. \<^verbatim>\<open>lastValue\<close> reads the history table of
  the database through the device, outside these files: it is the parameter
  \<open>lastValue\<close>.
\<close>

definition offline_value :: "(point \<Rightarrow> error + pyval) \<Rightarrow> point \<Rightarrow> point \<times> (error + pyval)" where
  "offline_value lastValue p =
     (case lastValue p of
        Inr v \<Rightarrow> (p, Inr v)
      | Inl (IndexError m) \<Rightarrow>
          (p, Inr (if pclass p = NumericPointOffline then PInt 65535 else PStr ''NaN''))
      | Inl (ValueError m) \<Rightarrow>
          (if pclass p = EnumPointOffline \<or> pclass p = StringPointOffline
           then (p, Inr (PStr ''NaN''))
           else (p, Inl (ValueError m)))
      | Inl e \<Rightarrow> (p, Inl e))"

text \<open>The \<^verbatim>\<open>value\<close> property, looked up by the class of the point.\<close>

definition point_value ::
  "(pyval \<Rightarrow> error + pyval) \<Rightarrow> (point \<Rightarrow> error + pyval) \<Rightarrow> network \<Rightarrow> point
     \<Rightarrow> time \<Rightarrow> time \<Rightarrow> time \<Rightarrow> point \<times> (error + pyval)" where
  "point_value to_datetime lastValue net p now1 now2 now3 =
     (case pclass p of
        NumericPoint \<Rightarrow> online_value net p now1 now2 now3
      | BooleanPoint \<Rightarrow> online_value net p now1 now2 now3
      | EnumPoint \<Rightarrow> online_value net p now1 now2 now3
      | StringPoint \<Rightarrow> online_value net p now1 now2 now3
      | DateTimePoint \<Rightarrow> DateTimePoint_value to_datetime net p now1 now2
      | NumericPointOffline \<Rightarrow> offline_value lastValue p
      | BooleanPointOffline \<Rightarrow> offline_value lastValue p
      | EnumPointOffline \<Rightarrow> offline_value lastValue p
      | StringPointOffline \<Rightarrow> offline_value lastValue p)"

text \<open>
  A sequence of reads of \<^verbatim>\<open>value\<close> on one point, each with its three clock readings.
  A read that raises leaves the history alone and the caller goes on. The result is the
  point after the reads and, for each read that returned, the third clock reading (the
  clock of \<^verbatim>\<open>_trend\<close> where the class calls it) and the value returned.
\<close>

fun read_all ::
  "(pyval \<Rightarrow> error + pyval) \<Rightarrow> (point \<Rightarrow> error + pyval) \<Rightarrow> network \<Rightarrow> point
     \<Rightarrow> (time \<times> time \<times> time) list \<Rightarrow> point \<times> (time \<times> pyval) list" where
  "read_all to_datetime lastValue net p [] = (p, [])"
| "read_all to_datetime lastValue net p ((now1, now2, now3) # rest) =
     (case point_value to_datetime lastValue net p now1 now2 now3 of
        (p', Inl e) \<Rightarrow> read_all to_datetime lastValue net p' rest
      | (p', Inr res) \<Rightarrow>
          (case read_all to_datetime lastValue net p' rest of
             (q, samples) \<Rightarrow> (q, (now3, res) # samples)))"

text \<open>The most recent \<open>n\<close> entries of a sequence whose newest entry is last.\<close>

definition most_recent :: "nat \<Rightarrow> 'a list \<Rightarrow> 'a list" where
  "most_recent n xs = drop (length xs - n) xs"

subsection \<open>Priority array\<close>

text \<open>
  \<^verbatim>\<open>Point.read_priority_array\<close> (lines 174-205), when awaited. The answer to the
  \<^verbatim>\<open>priorityArray\<close> request is the list of the slots' values, \<open>PNone\<close> for a slot
  that holds the protocol's null (whose \<^verbatim>\<open>_value\<close> is the empty tuple).
\<close>

definition read_priority_array :: "network \<Rightarrow> point \<Rightarrow> point \<times> error option" where
  "read_priority_array net p =
     (if priority_array p \<noteq> PA_False
      then
        (case net_call net p (NetRead (dev_address p) (ptype p) (paddress p) ''priorityArray'') of
           (p', Inr (PList slots)) \<Rightarrow> (p'\<lparr>priority_array := PA_List slots\<rparr>, None)
         | (p', Inr other) \<Rightarrow> (p'\<lparr>priority_array := PA_List []\<rparr>, Some (OtherException ''Problem reading''))
         | (p', Inl (ValueError m)) \<Rightarrow> (p'\<lparr>priority_array := PA_False\<rparr>, None)
         | (p', Inl UnknownPropertyError) \<Rightarrow> (p'\<lparr>priority_array := PA_False\<rparr>, None)
         | (p', Inl e) \<Rightarrow> (p', Some (OtherException ''Problem reading'')))
      else (p, None))"

text \<open>
  \<^verbatim>\<open>Point.priority\<close> (lines 262-276), when awaited, for a given priority number.
\<close>

definition priority :: "network \<Rightarrow> point \<Rightarrow> int \<Rightarrow> point \<times> (error + pyval)" where
  "priority net p n =
     (if priority_array p = PA_False then (p, Inr PNone)
      else
        (case read_priority_array net p of
           (p', Some e) \<Rightarrow> (p', Inl e)
         | (p', None) \<Rightarrow>
             (if n < 1 \<or> n > 16
              then (p', Inl (IndexError ''Please provide priority to read (1-16)''))
              else
                (case priority_array p' of
                   PA_List slots \<Rightarrow>
                     (case py_index slots (n - 1) of
                        Inl e \<Rightarrow> (p', Inl e)
                      | Inr val \<Rightarrow> (p', Inr val))
                 | _ \<Rightarrow> (p', Inl TypeError)))))"

text \<open>
  \<^verbatim>\<open>Point.is_overridden\<close> (lines 251-260). The property is not \<^verbatim>\<open>async\<close> and
  awaits nothing: \<^verbatim>\<open>self.read_priority_array()\<close> and \<^verbatim>\<open>self.priority(8)\<close>,
  \<^verbatim>\<open>self.priority(1)\<close>, \<^verbatim>\<open>self.value\<close> each only build a coroutine object.
  The first is dropped, the next two are tested for truth, the last is stored.
\<close>

definition is_overridden :: "point \<Rightarrow> point \<times> bool" where
  "is_overridden p =
     (if priority_array p = PA_False then (p, False)
      else if truthy (PCoroutine ''priority'') \<or> truthy (PCoroutine ''priority'')
      then (p\<lparr>overridden := (True, PCoroutine ''value'')\<rparr>, True)
      else (p, False))"

subsection \<open>Simulation, override and release\<close>

text \<open>\<^verbatim>\<open>Point.sim\<close> (lines 435-451).\<close>

definition sim :: "network \<Rightarrow> point \<Rightarrow> pyval \<Rightarrow> bool \<Rightarrow> point \<times> error option" where
  "sim net p v force =
     (if \<not> fst (simulated p) \<or> \<not> py_eq (snd (simulated p)) v \<or> force
      then
        (case net_call net p (NetSim (dev_address p) (ptype p) (paddress p) ''presentValue'' v) of
           (p', Inl e) \<Rightarrow> (p', Some e)
         | (p', Inr r) \<Rightarrow> (p'\<lparr>simulated := (True, v)\<rparr>, None))
      else (p, None))"

text \<open>\<^verbatim>\<open>Point.release\<close> (lines 472-479).\<close>

definition release :: "network \<Rightarrow> point \<Rightarrow> point \<times> error option" where
  "release net p =
     (case net_call net p
             (NetRelease (dev_address p) (ptype p) (paddress p) ''outOfService'' ''inactive'') of
        (p', Inl e) \<Rightarrow> (p', Some e)
      | (p', Inr r) \<Rightarrow> (p'\<lparr>simulated := (False, PNone)\<rparr>, None))"

text \<open>\<^verbatim>\<open>asyncio.create_task(self.write(value, priority=...))\<close>.\<close>

definition create_write_task :: "point \<Rightarrow> pyval \<Rightarrow> pyval \<Rightarrow> point" where
  "create_write_task p v prio = p\<lparr>tasks := tasks p @ [WriteTask v ''presentValue'' prio]\<rparr>"

text \<open>\<^verbatim>\<open>Point.ovr\<close> (lines 481-483).\<close>

definition ovr :: "point \<Rightarrow> pyval \<Rightarrow> point" where
  "ovr p v = (create_write_task p v (PInt 8))\<lparr>overridden := (True, v)\<rparr>"

text \<open>\<^verbatim>\<open>Point.auto\<close> (lines 485-487).\<close>

definition auto :: "point \<Rightarrow> point" where
  "auto p = (create_write_task p (PStr ''null'') (PInt 8))\<lparr>overridden := (False, PInt 0)\<rparr>"

text \<open>\<^verbatim>\<open>Point.release_ovr\<close> (lines 489-492).\<close>

definition release_ovr :: "point \<Rightarrow> point" where
  "release_ovr p =
     (create_write_task (create_write_task p (PStr ''null'') (PInt 1)) (PStr ''null'') (PInt 8))
       \<lparr>overridden := (False, PNone)\<rparr>"

text \<open>
  \<^verbatim>\<open>Point._setitem\<close> (lines 494-526). \<^verbatim>\<open>self.write(value)\<close> has the default priority,
  the string \<^verbatim>\<open>"16"\<close>.
\<close>

definition setitem :: "network \<Rightarrow> point \<Rightarrow> pyval \<Rightarrow> point \<times> error option" where
  "setitem net p v =
     (if py_in ''characterstring'' (ptype p)
      then (create_write_task p v (PStr ''16''), None)
      else if py_in ''value'' (ptype p)
      then
        (if str_lower_is v ''auto''
         then (p, Some (ValueError ''Value was not simulated or overridden, cannot release to auto''))
         else (create_write_task p v (PStr ''16''), None))
      else if py_in ''output'' (ptype p)
      then (if str_lower_is v ''auto'' then (auto p, None) else (ovr p v, None))
      else (if str_lower_is v ''auto'' then release net p else sim net p v False))"

subsection \<open>Polling\<close>


text \<open>
  The coroutine \<^verbatim>\<open>Point._poll\<close> (lines 538-568), as the event loop runs it.
  \<^verbatim>\<open>Poll(self, delay=delay)\<close>, \<^verbatim>\<open>.start()\<close> and \<^verbatim>\<open>.stop()\<close> belong to the task module,
  outside these files: the model logs them. The exception is the one the coroutine ends
  with; the task object of the event loop holds it.
\<close>

definition Point_poll_coroutine :: "point \<Rightarrow> pyval \<Rightarrow> int \<Rightarrow> point \<times> error option" where
  "Point_poll_coroutine p command delay =
     (if str_lower_is command ''stop'' \<or> command = PBool False \<or> py_eq command (PInt 0) \<or> delay = 0
      then
        (case polling_task p of
           Some old \<Rightarrow>
             (p\<lparr>poll_log := poll_log p @ [PollStopped old],
                polling_task := None, polling_running := False\<rparr>, None)
         | None \<Rightarrow> (p, None))
      else
        (case polling_task p of
           None \<Rightarrow>
             (p\<lparr>polling_task := Some delay,
                poll_log := poll_log p @ [PollCreated delay, PollStarted delay],
                polling_running := True\<rparr>, None)
         | Some old \<Rightarrow>
             (if polling_running p
              then
                (p\<lparr>poll_log := poll_log p @ [PollStopped old, PollCreated delay, PollStarted delay],
                   polling_task := Some delay, polling_running := True\<rparr>, None)
              else (p, Some (RuntimeError ''Stop polling before redefining it'')))))"

section \<open>Devices\<close>

text \<open>
  The classes a device object can have: \<^verbatim>\<open>Device\<close> while the constructor runs, then
  one of the four states (\<^verbatim>\<open>self.__class__ = newstate\<close>).
\<close>

datatype dev_class =
  Device | DeviceDisconnected | RPDeviceConnected | RPMDeviceConnected | DeviceFromDB

text \<open>
  A \<^verbatim>\<open>Device\<close> object with the fields of its \<^verbatim>\<open>DeviceProperties\<close> that the modelled
  methods read or write. \<open>d_network\<close> is the handle of the network collaborator, if any;
  \<open>trendlogs\<close> holds the object names in \<^verbatim>\<open>_list_of_trendlogs\<close>; \<open>d_net_log\<close> logs
  the calls to the network and \<open>state_log\<close> the states \<^verbatim>\<open>new_state\<close> was called with.
\<close>

record device =
  dclass :: dev_class
  initialized :: bool
  d_address :: "string option"
  d_device_id :: "int option"
  d_network :: "nat option"
  pollDelay :: int
  fast_polling :: bool
  d_name :: pyval
  d_vendor_id :: pyval
  d_db_name :: "string option"
  segmentation_supported :: bool
  d_history_size :: "int option"
  reconnect_on_failure :: bool
  points :: "point list"
  trendlogs :: "string list"
  d_net_log :: "net_call list"
  state_log :: "dev_class list"

text \<open>Truth of an \<^verbatim>\<open>Optional[str]\<close>: \<^verbatim>\<open>None\<close> and the empty string are false.\<close>

fun truthy_str :: "string option \<Rightarrow> bool" where
  "truthy_str None = False"
| "truthy_str (Some s) = (s \<noteq> [])"

text \<open>\<^verbatim>\<open>filename.split(".")[0]\<close>: the text before the first dot.\<close>

definition split_dot_first :: "string \<Rightarrow> string" where
  "split_dot_first filename = takeWhile (\<lambda>c. c \<noteq> CHR ''.'') filename"



text \<open>
  \<^verbatim>\<open>Device.__init__\<close> (lines 104-180). \<open>isfile\<close> is \<^verbatim>\<open>os.path.isfile\<close>, the state
  of the disk. The result is the object as the constructor leaves it and the exception
  it raises, if any. The arguments that are only stored (\<^verbatim>\<open>object_list\<close>,
  \<^verbatim>\<open>auto_save\<close>, \<^verbatim>\<open>save_resampling\<close>, \<^verbatim>\<open>clear_history_on_save\<close>) are left out.
\<close>

definition Device_init ::
  "(string \<Rightarrow> bool) \<Rightarrow> string option \<Rightarrow> int option \<Rightarrow> nat option \<Rightarrow> int \<Rightarrow> string option
     \<Rightarrow> bool \<Rightarrow> int option \<Rightarrow> bool \<Rightarrow> device \<times> error option" where
  "Device_init isfile address device_id network poll from_backup seg hsize reconnect =
     (let self = \<lparr> dclass = Device, initialized = False, d_address = address,
                   d_device_id = device_id, d_network = network, pollDelay = poll,
                   fast_polling = (if poll < 10 then True else False), d_name = PStr [],
                   d_vendor_id = PInt 0,
                   d_db_name = None, segmentation_supported = seg, d_history_size = hsize,
                   reconnect_on_failure = reconnect, points = [], trendlogs = [],
                   d_net_log = [], state_log = [] \<rparr>
      in if truthy_str from_backup
         then
           (let filename = the from_backup;
                db_name = split_dot_first filename;
                self1 = self\<lparr>d_network := None\<rparr>
            in if isfile filename
               then (self1\<lparr>d_db_name := Some db_name, initialized := True\<rparr>, None)
               else (self1, Some (FileNotFoundError filename)))
         else
           (if d_network self \<noteq> None \<and> truthy_str (d_address self) \<and> d_device_id self \<noteq> None
            then (self\<lparr>initialized := True\<rparr>, None)
            else (self, Some (BadDeviceDefinition
                   ''Please provide address, device id and network or specify from_backup argument''))))"

subsection \<open>State changes\<close>

text \<open>
  What a method of the device leaves: the device and the exception it raised, if any.
\<close>

type_synonym outcome = "device \<times> error option"

text \<open>
  \<^verbatim>\<open>Device.new_state\<close> (lines 182-197): log, set the class, run the entry action
  \<^verbatim>\<open>_init_state\<close> of the new class. The entry actions change the state themselves, so
  that \<^verbatim>\<open>new_state\<close> and they call each other; \<open>init_state\<close> is the entry action that
  a state change runs, given the new class and the device. \<open>None\<close> is a nesting of
  state changes deeper than the model follows.
\<close>

type_synonym entry_action = "dev_class \<Rightarrow> device \<Rightarrow> outcome option"

definition new_state :: "entry_action \<Rightarrow> device \<Rightarrow> dev_class \<Rightarrow> outcome option" where
  "new_state init_state d newstate =
     init_state newstate (d\<lparr>state_log := state_log d @ [newstate], dclass := newstate\<rparr>)"

definition dev_net_call :: "network \<Rightarrow> device \<Rightarrow> net_call \<Rightarrow> device \<times> (error + pyval)" where
  "dev_net_call net d req = (d\<lparr>d_net_log := d_net_log d @ [req]\<rparr>, net (length (d_net_log d)) req)"

text \<open>
  \<^verbatim>\<open>segmentation.numerator\<close>: integers have the attribute, the other values raise
  \<^verbatim>\<open>AttributeError\<close>.
\<close>

definition numerator :: "pyval \<Rightarrow> error + int" where
  "numerator v = (case as_int v of Some i \<Rightarrow> Inr i | None \<Rightarrow> Inl AttributeError)"

text \<open>
  The \<^verbatim>\<open>try\<close> block of \<^verbatim>\<open>DeviceDisconnected.connect\<close> (lines 871-891). The request
  \<^verbatim>\<open>"{} device {} objectName"\<close> is kept as \<open>NetReadDevice address device_id property\<close>.
\<close>

definition connect_try :: "network \<Rightarrow> entry_action \<Rightarrow> device \<Rightarrow> outcome option" where
  "connect_try net init_state d =
     (case dev_net_call net d (NetReadDevice (d_address d) (d_device_id d) ''objectName'') of
        (d1, Inl e) \<Rightarrow> Some (d1, Some e)
      | (d1, Inr name) \<Rightarrow>
          (case dev_net_call net d1
                  (NetReadDevice (d_address d1) (d_device_id d1) ''segmentationSupported'') of
             (d2, Inl e) \<Rightarrow> Some (d2, Some e)
           | (d2, Inr segmentation) \<Rightarrow>
               (case numerator segmentation of
                  Inl e \<Rightarrow> Some (d2, Some e)
                | Inr n \<Rightarrow>
                    (let d3 = d2\<lparr>segmentation_supported := (if n = 3 then False else True)\<rparr>
                     in if segmentation_supported d3
                        then new_state init_state d3 RPMDeviceConnected
                        else new_state init_state d3 RPDeviceConnected))))"

text \<open>
  \<^verbatim>\<open>DeviceDisconnected.connect\<close> (lines 855-908). An exception of the entry action run
  inside the \<^verbatim>\<open>try\<close> block meets the same handlers as one of the two reads.
\<close>

definition connect ::
  "network \<Rightarrow> entry_action \<Rightarrow> device \<Rightarrow> string option \<Rightarrow> nat option \<Rightarrow> outcome option" where
  "connect net init_state d db network =
     (let d0 = (if network \<noteq> None then d\<lparr>d_network := network\<rparr> else d)
      in if d_network d0 = None
         then (if truthy_str db then new_state init_state d0 DeviceFromDB else Some (d0, None))
         else
           (case connect_try net init_state d0 of
              None \<Rightarrow> None
            | Some (d1, None) \<Rightarrow> Some (d1, None)
            | Some (d1, Some SegmentationNotSupported) \<Rightarrow>
                new_state init_state (d1\<lparr>segmentation_supported := False\<rparr>) RPDeviceConnected
            | Some (d1, Some NoResponseFromController) \<Rightarrow>
                (if truthy_str (d_db_name d1) then new_state init_state d1 DeviceFromDB
                 else Some (d1, None))
            | Some (d1, Some AttributeError) \<Rightarrow>
                (if truthy_str (d_db_name d1) then new_state init_state d1 DeviceFromDB
                 else Some (d1, None))
            | Some (d1, Some e) \<Rightarrow> Some (d1, Some e)))"

subsection \<open>Entry action of the connected states\<close>

text \<open>
  The methods that \<^verbatim>\<open>RPDeviceConnected\<close> and \<^verbatim>\<open>RPMDeviceConnected\<close> inherit from the
  read mixins, outside these files: \<^verbatim>\<open>_discoverPoints(custom_object_list)\<close>, which
  answers with the object list, the points and the trend logs (the model keeps the
  points and the names of the trend logs), and \<^verbatim>\<open>poll(delay=...)\<close>. Each is given the
  device and may raise.
\<close>

record mixins =
  mixin_discoverPoints :: "device \<Rightarrow> error + point list \<times> string list"
  mixin_poll :: "device \<Rightarrow> int \<Rightarrow> error option"

text \<open>
  \<^verbatim>\<open>self._discoverPoints(...)\<close> and \<^verbatim>\<open>self.poll(delay=...)\<close>, looked up by the class
  the device has at that moment: \<^verbatim>\<open>DeviceDisconnected\<close> (lines 928-929, 973-974) and
  \<^verbatim>\<open>DeviceFromDB\<close> (lines 1099-1100, 1111-1112) raise, the base class has neither.
\<close>

definition discoverPoints :: "mixins \<Rightarrow> device \<Rightarrow> error + point list \<times> string list" where
  "discoverPoints m d =
     (case dclass d of
        RPDeviceConnected \<Rightarrow> mixin_discoverPoints m d
      | RPMDeviceConnected \<Rightarrow> mixin_discoverPoints m d
      | DeviceDisconnected \<Rightarrow> Inl (DeviceNotConnected ''Must connect to BACnet or database'')
      | DeviceFromDB \<Rightarrow> Inl (DeviceNotConnected ''Must connect to BACnet or database'')
      | Device \<Rightarrow> Inl AttributeError)"

definition device_poll :: "mixins \<Rightarrow> device \<Rightarrow> int \<Rightarrow> error option" where
  "device_poll m d delay =
     (case dclass d of
        RPDeviceConnected \<Rightarrow> mixin_poll m d delay
      | RPMDeviceConnected \<Rightarrow> mixin_poll m d delay
      | DeviceDisconnected \<Rightarrow> Some (DeviceNotConnected ''Must connect to BACnet or database'')
      | DeviceFromDB \<Rightarrow> Some (DeviceNotConnected ''Must connect to BACnet or database'')
      | Device \<Rightarrow> Some AttributeError)"

text \<open>\<^verbatim>\<open>Device.update_history_size\<close> (lines 312-314).\<close>

definition update_history_size :: "device \<Rightarrow> int option \<Rightarrow> device" where
  "update_history_size d hsize =
     d\<lparr>points := map (\<lambda>point. point\<lparr>history_size := hsize\<rparr>) (points d)\<rparr>"

text \<open>
  \<^verbatim>\<open>self.properties.network.read("{} device {} <property>")\<close> where the network may be
  \<^verbatim>\<open>None\<close>, which has no \<^verbatim>\<open>read\<close>.
\<close>

definition network_read :: "network \<Rightarrow> device \<Rightarrow> string \<Rightarrow> device \<times> (error + pyval)" where
  "network_read net d prop =
     (if d_network d = None then (d, Inl AttributeError)
      else dev_net_call net d (NetReadDevice (d_address d) (d_device_id d) prop))"

text \<open>
  \<^verbatim>\<open>DeviceConnected._buildPointList\<close> (lines 497-551), from its end. First the body of
  the second \<^verbatim>\<open>try\<close> block (lines 527-535): discover the points, start polling when
  the delay is positive, set the history size of the points.
\<close>

definition discover_and_poll :: "mixins \<Rightarrow> device \<Rightarrow> outcome" where
  "discover_and_poll m d =
     (case discoverPoints m d of
        Inl e \<Rightarrow> (d, Some e)
      | Inr (pts, logs) \<Rightarrow>
          (let d1 = d\<lparr>points := pts, trendlogs := logs\<rparr>
           in case (if 0 < pollDelay d1 then device_poll m d1 (pollDelay d1) else None) of
                Some e \<Rightarrow> (d1, Some e)
              | None \<Rightarrow> (update_history_size d1 (d_history_size d1), None)))"

text \<open>
  The second \<^verbatim>\<open>try\<close> statement with its handlers (lines 526-551): no response while
  the points are discovered sends the device back to \<^verbatim>\<open>DeviceDisconnected\<close>, and so
  does an \<^verbatim>\<open>IndexError\<close> when the device reconnects on failure.
\<close>

definition buildPointList_points :: "mixins \<Rightarrow> entry_action \<Rightarrow> device \<Rightarrow> outcome option" where
  "buildPointList_points m init_state d =
     (case discover_and_poll m d of
        (d1, None) \<Rightarrow> Some (d1, None)
      | (d1, Some NoResponseFromController) \<Rightarrow>
          new_state init_state (d1\<lparr>segmentation_supported := False\<rparr>) DeviceDisconnected
      | (d1, Some (IndexError msg)) \<Rightarrow>
          (if reconnect_on_failure d1 then new_state init_state d1 DeviceDisconnected
           else Some (d1, None))
      | (d1, Some e) \<Rightarrow> Some (d1, Some e))"

text \<open>
  The reads of the name and of the vendor identifier (lines 515-524), outside any
  \<^verbatim>\<open>try\<close>, then the points.
\<close>

definition buildPointList_names ::
  "network \<Rightarrow> mixins \<Rightarrow> entry_action \<Rightarrow> device \<Rightarrow> outcome option" where
  "buildPointList_names net m init_state d =
     (case network_read net d ''objectName'' of
        (d1, Inl e) \<Rightarrow> Some (d1, Some e)
      | (d1, Inr name) \<Rightarrow>
          (case network_read net (d1\<lparr>d_name := name\<rparr>) ''vendorIdentifier'' of
             (d2, Inl e) \<Rightarrow> Some (d2, Some e)
           | (d2, Inr vendor) \<Rightarrow>
               buildPointList_points m init_state (d2\<lparr>d_vendor_id := vendor\<rparr>)))"

text \<open>
  The whole method. The read of \<^verbatim>\<open>protocolServicesSupported\<close> (lines 501-513): no
  response ends the method without an exception; \<^verbatim>\<open>SegmentationNotSupported\<close> sends
  the device to \<^verbatim>\<open>DeviceDisconnected\<close> and, when that state change returns, the method
  goes on with the device as it then is. The services read are not kept in the model.
\<close>

definition buildPointList :: "network \<Rightarrow> mixins \<Rightarrow> entry_action \<Rightarrow> device \<Rightarrow> outcome option" where
  "buildPointList net m init_state d =
     (case network_read net d ''protocolServicesSupported'' of
        (d1, Inl NoResponseFromController) \<Rightarrow> Some (d1, None)
      | (d1, Inl SegmentationNotSupported) \<Rightarrow>
          (case new_state init_state (d1\<lparr>segmentation_supported := False\<rparr>) DeviceDisconnected of
             None \<Rightarrow> None
           | Some (d2, Some e) \<Rightarrow> Some (d2, Some e)
           | Some (d2, None) \<Rightarrow> buildPointList_names net m init_state d2)
      | (d1, Inl e) \<Rightarrow> Some (d1, Some e)
      | (d1, Inr pss) \<Rightarrow> buildPointList_names net m init_state d1)"

text \<open>
  \<^verbatim>\<open>DeviceConnected._init_state\<close> (lines 449-451): build the point list, then
  \<^verbatim>\<open>self.properties.network.register_device(self)\<close>.
\<close>

definition DeviceConnected_init_state ::
  "network \<Rightarrow> mixins \<Rightarrow> entry_action \<Rightarrow> device \<Rightarrow> outcome option" where
  "DeviceConnected_init_state net m init_state d =
     (case buildPointList net m init_state d of
        None \<Rightarrow> None
      | Some (d1, Some e) \<Rightarrow> Some (d1, Some e)
      | Some (d1, None) \<Rightarrow>
          (if d_network d1 = None then Some (d1, Some AttributeError)
           else
             (case dev_net_call net d1 NetRegisterDevice of
                (d2, Inl e) \<Rightarrow> Some (d2, Some e)
              | (d2, Inr v) \<Rightarrow> Some (d2, None))))"

subsection \<open>Entry action of the database state\<close>

text \<open>
  The database, read through the SQL mixin outside these files:
  \<^verbatim>\<open>read_dev_prop(db_name)\<close> gives the saved properties of the device,
  \<^verbatim>\<open>points_from_sql(db_name)\<close> the names of the saved points and
  \<^verbatim>\<open>read_point_prop(db_name, name)\<close> the saved properties of one point. Of the
  properties, the records hold those that the model of the device and of the point
  has a field for.
\<close>

record dev_props =
  dp_address :: "string option"
  dp_device_id :: "int option"
  dp_pollDelay :: int
  dp_name :: pyval

record point_props =
  pp_name :: string
  pp_type :: string
  pp_address :: int
  pp_units_state :: pyval

record sql =
  read_dev_prop :: "string option \<Rightarrow> error + dev_props"
  points_from_sql :: "string option \<Rightarrow> error + string list"
  read_point_prop :: "string option \<Rightarrow> string \<Rightarrow> error + point_props"

text \<open>
  \<^verbatim>\<open>OfflinePoint.__init__\<close> (lines 1284-1311): the class of the point follows the text
  of its saved type.
\<close>

definition offline_class :: "string \<Rightarrow> point_class option" where
  "offline_class type' =
     (if py_in ''analog'' type' then Some NumericPointOffline
      else if py_in ''multi'' type' then Some EnumPointOffline
      else if py_in ''binary'' type' then Some BooleanPointOffline
      else if py_in ''string'' type' then Some StringPointOffline
      else None)"

text \<open>
  The constructor does not call \<^verbatim>\<open>Point.__init__\<close>: the point has no history of its
  own, no cache and no polling task, and the fields of the model for these are left
  empty. The address of the device is the one it has when the point is made.
\<close>

definition OfflinePoint_init :: "sql \<Rightarrow> device \<Rightarrow> string \<Rightarrow> error + point" where
  "OfflinePoint_init db device name =
     (case read_point_prop db (d_db_name device) name of
        Inl e \<Rightarrow> Inl e
      | Inr props \<Rightarrow>
          (case offline_class (pp_type props) of
             None \<Rightarrow> Inl TypeError
           | Some cls \<Rightarrow>
               Inr \<lparr> pclass = cls, ptype = pp_type props, paddress = pp_address props,
                     pname = pp_name props, units_state = pp_units_state props,
                     dev_address = (case d_address device of Some a \<Rightarrow> a | None \<Rightarrow> []),
                     dev_vendor_id = 0, database = False,
                     simulated = (True, PNone), overridden = (False, PNone),
                     priority_array = PA_None, history_size = None,
                     history_timestamp = [], history_value = [],
                     cache_previous_read = (None, PNone),
                     polling_task = None, polling_running = False,
                     net_log = [], db_log = [], tasks = [], poll_log = [] \<rparr>))"

text \<open>
  The loop of \<^verbatim>\<open>initialize_device_from_db\<close> over the saved names (lines 1059-1063): a
  point that was removed is skipped, any other exception ends the loop.
\<close>

fun load_points :: "sql \<Rightarrow> device \<Rightarrow> string list \<Rightarrow> point list \<Rightarrow> point list \<times> error option" where
  "load_points db device [] acc = (acc, None)"
| "load_points db device (name # rest) acc =
     (case OfflinePoint_init db device name of
        Inr point \<Rightarrow> load_points db device rest (acc @ [point])
      | Inl RemovedPointException \<Rightarrow> load_points db device rest acc
      | Inl e \<Rightarrow> (acc, Some e))"

text \<open>
  \<^verbatim>\<open>DeviceFromDB.initialize_device_from_db\<close> (lines 1045-1084). At the end the
  properties are a new \<^verbatim>\<open>DeviceProperties\<close> object filled from the saved ones: the
  network is \<^verbatim>\<open>None\<close>, and what is not saved has its default.
\<close>

definition initialize_device_from_db :: "sql \<Rightarrow> device \<Rightarrow> outcome" where
  "initialize_device_from_db db d =
     (if \<not> truthy_str (d_db_name d)
      then (d, Some (ValueError ''Please provide db name using device.load_db('name')''))
      else
        (case read_dev_prop db (d_db_name d) of
           Inl e \<Rightarrow> (d, Some e)
         | Inr props \<Rightarrow>
             (case points_from_sql db (d_db_name d) of
                Inl e \<Rightarrow> (d\<lparr>points := []\<rparr>, Some e)
              | Inr names \<Rightarrow>
                  (case load_points db d names [] of
                     (pts, Some e) \<Rightarrow> (d\<lparr>points := pts\<rparr>, Some e)
                   | (pts, None) \<Rightarrow>
                       (d\<lparr>points := pts, d_address := dp_address props,
                          d_device_id := dp_device_id props, d_network := None,
                          pollDelay := dp_pollDelay props, d_name := dp_name props,
                          d_vendor_id := PInt 0, d_history_size := None,
                          fast_polling := False\<rparr>, None)))))"

subsection \<open>The entry actions together\<close>

text \<open>
  \<^verbatim>\<open>_init_state\<close>, looked up by the class the device has just been given:
  \<^verbatim>\<open>Device._init_state\<close> (lines 199-203) raises, \<^verbatim>\<open>DeviceDisconnected._init_state\<close>
  (lines 852-853) is \<^verbatim>\<open>self.connect()\<close>, the connected states build the point list,
  and \<^verbatim>\<open>DeviceFromDB._init_state\<close> (lines 994-1000) loads the database and lets what
  that raises through. \<open>depth\<close> is the number of state changes, one inside the other,
  that the model follows.
\<close>

primrec init_state :: "nat \<Rightarrow> network \<Rightarrow> mixins \<Rightarrow> sql \<Rightarrow> dev_class \<Rightarrow> device \<Rightarrow> outcome option" where
  "init_state 0 net m db cls d = None"
| "init_state (Suc depth) net m db cls d =
     (case cls of
        Device \<Rightarrow> Some (d, Some (NotImplementedError []))
      | DeviceDisconnected \<Rightarrow> connect net (init_state depth net m db) d None None
      | RPDeviceConnected \<Rightarrow> DeviceConnected_init_state net m (init_state depth net m db) d
      | RPMDeviceConnected \<Rightarrow> DeviceConnected_init_state net m (init_state depth net m db) d
      | DeviceFromDB \<Rightarrow> Some (initialize_device_from_db db d))"




subsection \<open>Operations of a device, by state\<close>

text \<open>
  The operations the state classes define, with their arguments: \<^verbatim>\<open>df\<close>,
  \<^verbatim>\<open>simulated_points\<close>, \<^verbatim>\<open>_buildPointList\<close>, \<^verbatim>\<open>read_multiple\<close>, \<^verbatim>\<open>poll\<close>,
  \<^verbatim>\<open>__getitem__\<close>, \<^verbatim>\<open>__iter__\<close>, \<^verbatim>\<open>__contains__\<close>, \<^verbatim>\<open>points_name\<close>,
  \<^verbatim>\<open>to_excel\<close>, \<^verbatim>\<open>__setitem__\<close>, \<^verbatim>\<open>__len__\<close>, \<^verbatim>\<open>analog_units\<close>,
  \<^verbatim>\<open>temperatures\<close>, \<^verbatim>\<open>percent\<close>, \<^verbatim>\<open>multi_states\<close>, \<^verbatim>\<open>binary_states\<close>,
  \<^verbatim>\<open>_discoverPoints\<close> and \<^verbatim>\<open>_findPoint\<close>.
\<close>

datatype key = KName string | KTuple string int | KList "string list"

datatype dev_op =
    Op_df "string list"
  | Op_simulated_points
  | Op_buildPointList
  | Op_read_multiple
  | Op_poll pyval int
  | Op_getitem key
  | Op_iter
  | Op_contains string
  | Op_points_name
  | Op_to_excel
  | Op_setitem string pyval
  | Op_len
  | Op_analog_units
  | Op_temperatures
  | Op_percent
  | Op_multi_states
  | Op_binary_states
  | Op_discoverPoints
  | Op_findPoint string

text \<open>
  What an operation returns. A generator is given by the items a full iteration yields.
  \<open>RFrame\<close> is the table of \<^verbatim>\<open>df\<close>: each column name with the point whose
  \<^verbatim>\<open>history\<close> fills it. \<open>RTrend\<close> is a trend log, by its object name.
\<close>

datatype result =
    RNone
  | RInt nat
  | RPoint point
  | RPoints "point list"
  | RNames "string list"
  | RDict "(string \<times> pyval) list"
  | RFrame "(string \<times> point) list"
  | RTrend string
  | RCoroutine string

text \<open>\<^verbatim>\<open>isinstance(each, NumericPoint)\<close> and the like, along the class hierarchy.\<close>

fun is_NumericPoint :: "point_class \<Rightarrow> bool" where
  "is_NumericPoint NumericPoint = True"
| "is_NumericPoint NumericPointOffline = True"
| "is_NumericPoint _ = False"

fun is_EnumPoint :: "point_class \<Rightarrow> bool" where
  "is_EnumPoint EnumPoint = True"
| "is_EnumPoint EnumPointOffline = True"
| "is_EnumPoint StringPointOffline = True"
| "is_EnumPoint _ = False"

fun is_BooleanPoint :: "point_class \<Rightarrow> bool" where
  "is_BooleanPoint BooleanPoint = True"
| "is_BooleanPoint BooleanPointOffline = True"
| "is_BooleanPoint _ = False"

text \<open>
  \<^verbatim>\<open>dict(pairs)\<close>: a key keeps the place of its first occurrence and the value of its
  last.
\<close>

definition py_dict :: "('k \<times> 'v) list \<Rightarrow> ('k \<times> 'v) list" where
  "py_dict kvs = foldl (\<lambda>d (k, v). AList.update k v d) [] kvs"

text \<open>
  \<^verbatim>\<open>sub in x\<close> for a string \<open>sub\<close>: substring of a string, member of a list,
  \<^verbatim>\<open>TypeError\<close> for a value that is not iterable.
\<close>

fun py_contains :: "string \<Rightarrow> pyval \<Rightarrow> error + bool" where
  "py_contains sub (PStr s) = Inr (py_in sub s)"
| "py_contains sub (PList xs) = Inr (list_ex (\<lambda>x. py_eq x (PStr sub)) xs)"
| "py_contains sub _ = Inl TypeError"

text \<open>
  The loop of \<^verbatim>\<open>temperatures\<close> and \<^verbatim>\<open>percent\<close> over \<^verbatim>\<open>analog_units.items()\<close>:
  the items yielded, or the exception that ends the iteration.
\<close>

fun units_containing :: "string \<Rightarrow> (string \<times> pyval) list \<Rightarrow> error + (string \<times> pyval) list" where
  "units_containing sub [] = Inr []"
| "units_containing sub ((k, u) # rest) =
     (case py_contains sub u of
        Inl e \<Rightarrow> Inl e
      | Inr b \<Rightarrow>
          (case units_containing sub rest of
             Inl e \<Rightarrow> Inl e
           | Inr ys \<Rightarrow> Inr (if b then (k, u) # ys else ys)))"

text \<open>
  \<^verbatim>\<open>DeviceConnected._findPoint\<close> (lines 682-691). \<^verbatim>\<open>point.value\<close> under
  \<^verbatim>\<open>force_read\<close> changes nothing of the device: on an online point it builds a
  coroutine that is never awaited, on an offline point it returns the last value.
\<close>

definition findPoint :: "device \<Rightarrow> string \<Rightarrow> error + point" where
  "findPoint d name =
     (case find (\<lambda>point. pname point = name) (points d) of
        Some point \<Rightarrow> Inr point
      | None \<Rightarrow> Inl (ValueError (name @ '' doesn't exist in controller'')))"

text \<open>\<^verbatim>\<open>DeviceConnected.analog_units\<close> (lines 636-647).\<close>

definition analog_units :: "device \<Rightarrow> (string \<times> pyval) list" where
  "analog_units d =
     py_dict (map (\<lambda>each. (pname each, units_state each))
                (filter (\<lambda>each. is_NumericPoint (pclass each)) (points d)))"

text \<open>\<^verbatim>\<open>DeviceConnected.df\<close> (lines 481-495): the names not found are skipped.\<close>

definition df :: "device \<Rightarrow> string list \<Rightarrow> (string \<times> point) list" where
  "df d list_of_points =
     py_dict (zip list_of_points
                (List.map_filter
                   (\<lambda>point. case findPoint d point of Inr p \<Rightarrow> Some p | Inl e \<Rightarrow> None)
                   list_of_points))"

text \<open>
  The methods of class \<^verbatim>\<open>DeviceConnected\<close> (lines 443-819) that its subclass
  \<^verbatim>\<open>DeviceFromDB\<close> inherits without overriding: \<^verbatim>\<open>df\<close>, \<^verbatim>\<open>__getitem__\<close>
  (lines 553-589), \<^verbatim>\<open>__iter__\<close>, \<^verbatim>\<open>points_name\<close>, \<^verbatim>\<open>__len__\<close>,
  \<^verbatim>\<open>analog_units\<close>, \<^verbatim>\<open>temperatures\<close>, \<^verbatim>\<open>percent\<close>, \<^verbatim>\<open>multi_states\<close>,
  \<^verbatim>\<open>binary_states\<close>, \<^verbatim>\<open>_findPoint\<close>. \<open>None\<close> for the other operations, which
  both \<^verbatim>\<open>DeviceDisconnected\<close> and \<^verbatim>\<open>DeviceFromDB\<close> override.
\<close>

fun DeviceConnected_op :: "device \<Rightarrow> dev_op \<Rightarrow> (error + result) option" where
  "DeviceConnected_op d (Op_df names) = Some (Inr (RFrame (df d names)))"
| "DeviceConnected_op d (Op_getitem (KList names)) = Some (Inr (RFrame (df d names)))"
| "DeviceConnected_op d (Op_getitem (KTuple type' address')) =
     Some (case find (\<lambda>point. ptype point = type' \<and> paddress point = address') (points d) of
             Some point \<Rightarrow> Inr (RPoint point)
           | None \<Rightarrow> Inr RNone)"
| "DeviceConnected_op d (Op_getitem (KName point_name)) =
     Some (case findPoint d point_name of
             Inr point \<Rightarrow> Inr (RPoint point)
           | Inl e \<Rightarrow>
               (if point_name \<in> set (trendlogs d) then Inr (RTrend point_name)
                else if py_in ''@prop_'' point_name then Inr (RCoroutine ''read_property'')
                else Inr RNone))"
| "DeviceConnected_op d Op_iter = Some (Inr (RPoints (points d)))"
| "DeviceConnected_op d Op_points_name = Some (Inr (RNames (map pname (points d))))"
| "DeviceConnected_op d Op_len = Some (Inr (RInt (length (points d))))"
| "DeviceConnected_op d Op_analog_units = Some (Inr (RDict (analog_units d)))"
| "DeviceConnected_op d Op_temperatures =
     Some (case units_containing ''deg'' (analog_units d) of
             Inl e \<Rightarrow> Inl e
           | Inr items \<Rightarrow> Inr (RDict items))"
| "DeviceConnected_op d Op_percent =
     Some (case units_containing ''percent'' (analog_units d) of
             Inl e \<Rightarrow> Inl e
           | Inr items \<Rightarrow> Inr (RDict items))"
| "DeviceConnected_op d Op_multi_states =
     Some (Inr (RDict (py_dict (map (\<lambda>each. (pname each, units_state each))
                                  (filter (\<lambda>each. is_EnumPoint (pclass each)) (points d))))))"
| "DeviceConnected_op d Op_binary_states =
     Some (Inr (RDict (py_dict (map (\<lambda>each. (pname each, units_state each))
                                  (filter (\<lambda>each. is_BooleanPoint (pclass each)) (points d))))))"
| "DeviceConnected_op d (Op_findPoint name) =
     Some (case findPoint d name of Inl e \<Rightarrow> Inl e | Inr point \<Rightarrow> Inr (RPoint point))"
| "DeviceConnected_op d _ = None"

text \<open>
  The methods of class \<^verbatim>\<open>DeviceDisconnected\<close> (lines 910-977). \<^verbatim>\<open>simulated_points\<close>
  is a generator over the points whose \<^verbatim>\<open>simulated\<close> pair is true, and a pair always
  is.
\<close>

fun DeviceDisconnected_op :: "device \<Rightarrow> dev_op \<Rightarrow> error + result" where
  "DeviceDisconnected_op d Op_simulated_points = Inr (RPoints (points d))"
| "DeviceDisconnected_op d Op_multi_states =
     Inl (DeviceNotConnected ''Must connect to bacnet or database'')"
| "DeviceDisconnected_op d _ = Inl (DeviceNotConnected ''Must connect to BACnet or database'')"

text \<open>
  The methods of class \<^verbatim>\<open>DeviceFromDB(DeviceConnected)\<close>: its own (lines 1086-1112)
  raise; the others are looked up in \<^verbatim>\<open>DeviceConnected\<close>.
\<close>

fun DeviceFromDB_own :: "dev_op \<Rightarrow> bool" where
  "DeviceFromDB_own Op_simulated_points = True"
| "DeviceFromDB_own Op_buildPointList = True"
| "DeviceFromDB_own Op_read_multiple = True"
| "DeviceFromDB_own (Op_poll command delay) = True"
| "DeviceFromDB_own (Op_contains v) = True"
| "DeviceFromDB_own Op_to_excel = True"
| "DeviceFromDB_own (Op_setitem point_name v) = True"
| "DeviceFromDB_own Op_discoverPoints = True"
| "DeviceFromDB_own _ = False"

definition DeviceFromDB_op :: "device \<Rightarrow> dev_op \<Rightarrow> error + result" where
  "DeviceFromDB_op d op =
     (if DeviceFromDB_own op then Inl (DeviceNotConnected ''Must connect to BACnet or database'')
      else
        (case DeviceConnected_op d op of
           Some r \<Rightarrow> r
         | None \<Rightarrow> Inl (NotImplementedError [])))"

text \<open>
  An operation on a device, looked up by the class the object has at that moment. The
  connected classes find in \<^verbatim>\<open>DeviceConnected\<close> what is modelled of it; \<open>None\<close>
  where the method is not modelled.
\<close>

definition device_op :: "device \<Rightarrow> dev_op \<Rightarrow> (error + result) option" where
  "device_op d op =
     (case dclass d of
        DeviceDisconnected \<Rightarrow> Some (DeviceDisconnected_op d op)
      | DeviceFromDB \<Rightarrow> Some (DeviceFromDB_op d op)
      | RPDeviceConnected \<Rightarrow> DeviceConnected_op d op
      | RPMDeviceConnected \<Rightarrow> DeviceConnected_op d op
      | Device \<Rightarrow> None)"

text \<open>Whether an outcome is the exception \<^verbatim>\<open>DeviceNotConnected\<close>.\<close>

fun not_connected :: "(error + result) option \<Rightarrow> bool" where
  "not_connected (Some (Inl (DeviceNotConnected m))) = True"
| "not_connected _ = False"

section \<open>Concrete inputs\<close>

text \<open>
  A numeric point as the constructor leaves it, with a history bound of 5, and a network
  that answers the \<open>n\<close>-th call with the number \<open>n\<close>.
\<close>

definition example_point :: point where
  "example_point =
     Point_init NumericPoint ''2:5'' 0 False ''analog-input'' 1 ''temp'' (PInt 20)
       (PStr ''degreesCelsius'') (Some 5) 0"

definition counting_net :: network where
  "counting_net n req = Inr (PInt (int n + 1))"

text \<open>Seven reads two seconds apart, each beyond the cache window of the one before.\<close>

definition example_clocks :: "(time \<times> time \<times> time) list" where
  "example_clocks =
     [(2000000, 2000100, 2000200), (4000000, 4000100, 4000200), (6000000, 6000100, 6000200),
      (8000000, 8000100, 8000200), (10000000, 10000100, 10000200),
      (12000000, 12000100, 12000200), (14000000, 14000100, 14000200)]"

text \<open>
  The history table of a database that holds no sample of any point: \<^verbatim>\<open>lastValue\<close>
  is \<^verbatim>\<open>None\<close>.
\<close>

definition empty_table :: "point \<Rightarrow> error + pyval" where
  "empty_table p = Inr PNone"

text \<open>
  The same point without a history bound, a timestamp point, and two reads of
  \<^verbatim>\<open>value\<close> 0.3 seconds apart.
\<close>

definition unbounded_point :: point where
  "unbounded_point =
     Point_init NumericPoint ''2:5'' 0 False ''analog-input'' 1 ''temp'' (PInt 20)
       (PStr ''degreesCelsius'') None 0"

definition datetime_point :: point where
  "datetime_point =
     Point_init DateTimePoint ''2:5'' 0 False ''datetime-value'' 3 ''clock'' PNone PNone None 0"

definition first_read :: "point \<Rightarrow> point \<times> (error + pyval)" where
  "first_read p = online_value counting_net p 2000000 2000100 2000200"

definition second_read :: "point \<Rightarrow> point \<times> (error + pyval)" where
  "second_read p = online_value counting_net (fst (first_read p)) 2000300 2000400 2000500"

text \<open>
  The bounded point after five reads two seconds apart: its history holds five entries,
  as many as its bound.
\<close>

definition full_point :: point where
  "full_point = fst (read_all Inr empty_table counting_net example_point (take 5 example_clocks))"



text \<open>
  An analog value, an analog output that is not overridden, and a character string
  value; the analog input is \<open>example_point\<close>.
\<close>

definition value_point :: point where
  "value_point =
     Point_init NumericPoint ''2:5'' 0 False ''analog-value'' 2 ''setpoint'' (PInt 21)
       (PStr ''degreesCelsius'') None 0"

definition output_point :: point where
  "output_point =
     Point_init NumericPoint ''2:5'' 0 False ''analog-output'' 4 ''valve'' (PInt 0)
       (PStr ''percent'') None 0"

definition string_point :: point where
  "string_point =
     Point_init StringPoint ''2:5'' 0 False ''characterstring-value'' 7 ''label'' (PStr ''idle'')
       PNone None 0"

text \<open>
  The analog input while it is simulated at 30, the analog output while it is overridden
  at 50, and the analog output after its priority array was read as sixteen empty
  slots, with the network that gives that answer.
\<close>

definition simulated_point :: point where
  "simulated_point = example_point\<lparr>simulated := (True, PInt 30)\<rparr>"

definition overridden_point :: point where
  "overridden_point = output_point\<lparr>overridden := (True, PInt 50)\<rparr>"

definition idle_output :: point where
  "idle_output = output_point\<lparr>priority_array := PA_List (replicate 16 PNone)\<rparr>"

definition null_array_net :: network where
  "null_array_net n req = Inr (PList (replicate 16 PNone))"

text \<open>A disk that holds the one file \<^verbatim>\<open>backup.db\<close>.\<close>

definition example_disk :: "string \<Rightarrow> bool" where
  "example_disk filename = (filename = ''backup.db'')"

text \<open>
  A device as \<^verbatim>\<open>device(...)\<close> leaves it before the first \<^verbatim>\<open>connect\<close>: constructed
  with address, identifier and network, in state \<^verbatim>\<open>DeviceDisconnected\<close>; the same with
  a database name; read mixins that discover one point, and read mixins whose discovery
  gets no response; a database that holds the device and the point \<^verbatim>\<open>temp\<close>, and
  the name of a point that was removed; a network that answers the second request with
  a segmentation capability, one that raises at every request, and one that raises at
  one request only.
\<close>

definition disconnected_device :: device where
  "disconnected_device =
     (fst (Device_init example_disk (Some ''2:5'') (Some 5) (Some 1) 10 None True None True))
       \<lparr>dclass := DeviceDisconnected\<rparr>"

definition disconnected_device_db :: device where
  "disconnected_device_db = disconnected_device\<lparr>d_db_name := Some ''backup''\<rparr>"







text \<open>
  A device in state \<^verbatim>\<open>DeviceFromDB\<close> with one point restored from the database, a
  \<^verbatim>\<open>NumericPointOffline\<close> named \<^verbatim>\<open>temp\<close>.
\<close>

definition offline_point :: point where
  "offline_point = example_point\<lparr>pclass := NumericPointOffline\<rparr>"

definition restored_device :: device where
  "restored_device =
     disconnected_device_db\<lparr>dclass := DeviceFromDB, d_network := None, points := [offline_point]\<rparr>"

section \<open>History bound\<close>

lemma py_eq_BinaryPV:
  "py_eq (PBinaryPV False) (PInt 0)" "py_eq (PBinaryPV True) (PInt 1)"
  "py_eq (PBinaryPV True) (PBool True)" "\<not> py_eq (PBinaryPV True) (PInt 0)"
  "history_entry BooleanPoint p (PInt 1) = PStr ''1: active''"
  "history_entry BooleanPoint p (PBool True) = PStr ''1: active''"
  "history_entry BooleanPoint p (PBinaryPV False) = PStr ''0: inactive''"
  by simp_all

lemma most_recent_append:
  "most_recent n (most_recent n xs @ ys) = most_recent n (xs @ ys)"
proof (cases "length xs \<le> n")
  case True
  then show ?thesis by (simp add: most_recent_def)
next
  case False
  then have "length xs + length ys - (length xs - n + n) + (length xs - n) = length xs + length ys - n"
    by arith
  then show ?thesis by (simp add: most_recent_def)
qed

lemma most_recent_short: "length xs \<le> n \<Longrightarrow> most_recent n xs = xs"
  by (simp add: most_recent_def)

lemma length_most_recent: "length (most_recent n xs) = min (length xs) n"
  by (simp add: most_recent_def)

lemma py_slice_from_neg: "1 \<le> B \<Longrightarrow> py_slice_from (- B) xs = most_recent (nat B) xs"
  by (simp add: py_slice_from_def most_recent_def)

lemma trend_bounded:
  assumes "history_size p = Some B" "1 \<le> B"
    and "length (history_timestamp p) = length (history_value p)"
  shows "history_value (trend p res now) = most_recent (nat B) (history_value p @ [res])"
    and "history_timestamp (trend p res now) = most_recent (nat B) (history_timestamp p @ [now])"
    and "history_size (trend p res now) = Some B"
    and "pclass (trend p res now) = pclass p"
    and "units_state (trend p res now) = units_state p"
  using assms
  by (auto simp: trend_def Let_def py_slice_from_neg most_recent_short)

lemma Point_value_frame:
  assumes "Point_value net p now1 now2 = (p', r)"
  shows "history_value p' = history_value p" "history_timestamp p' = history_timestamp p"
    "history_size p' = history_size p" "pclass p' = pclass p" "units_state p' = units_state p"
  using assms
  by (auto simp: Point_value_def net_call_def split: if_splits sum.splits prod.splits)

lemma get_state_frame: "units_state p' = units_state p \<Longrightarrow> get_state p' v = get_state p v"
  by (simp add: get_state_def split: option.splits)

lemma history_entry_frame:
  "units_state p' = units_state p \<Longrightarrow> history_entry c p' v = history_entry c p v"
  by (cases c) (simp_all add: get_state_def split: option.splits)

lemma online_value_Inl:
  assumes "online_value net p now1 now2 now3 = (p', Inl e)"
  shows "history_value p' = history_value p" "history_timestamp p' = history_timestamp p"
    "history_size p' = history_size p" "pclass p' = pclass p" "units_state p' = units_state p"
proof -
  obtain p0 r where pv: "Point_value net p now1 now2 = (p0, r)" by force
  have "r = Inl e \<and> p' = p0"
    using assms by (cases r) (simp_all add: online_value_def pv)
  then have "Point_value net p now1 now2 = (p', Inl e)" using pv by simp
  from Point_value_frame[OF this]
  show "history_value p' = history_value p" "history_timestamp p' = history_timestamp p"
    "history_size p' = history_size p" "pclass p' = pclass p" "units_state p' = units_state p"
    by simp_all
qed

lemma online_value_Inr:
  assumes "online_value net p now1 now2 now3 = (p', Inr res)"
    and "history_size p = Some B" "1 \<le> B"
    and "length (history_timestamp p) = length (history_value p)"
    and "pclass p \<noteq> DateTimePoint"
  shows "history_value p' = most_recent (nat B) (history_value p @ [history_entry (pclass p) p res])"
    "history_timestamp p' = most_recent (nat B) (history_timestamp p @ [now3])"
    "history_size p' = Some B" "pclass p' = pclass p" "units_state p' = units_state p"
proof -
  obtain p0 r where pv0: "Point_value net p now1 now2 = (p0, r)" by force
  have "r = Inr res \<and> p' = class_trend (pclass p) p0 res now3"
    using assms(1) by (cases r) (simp_all add: online_value_def pv0)
  then have pv: "Point_value net p now1 now2 = (p0, Inr res)"
    and p': "p' = class_trend (pclass p) p0 res now3"
    using pv0 by simp_all
  note fr = Point_value_frame[OF pv]
  have p'': "p' = trend p0 (history_entry (pclass p) p res) now3"
    using p' assms(5) history_entry_frame[OF fr(5), of "pclass p" res] by (simp add: class_trend_def)
  have h: "history_size p0 = Some B" "length (history_timestamp p0) = length (history_value p0)"
    using fr assms by simp_all
  show "history_value p' = most_recent (nat B) (history_value p @ [history_entry (pclass p) p res])"
    "history_timestamp p' = most_recent (nat B) (history_timestamp p @ [now3])"
    "history_size p' = Some B" "pclass p' = pclass p" "units_state p' = units_state p"
    using trend_bounded[OF h(1) assms(3) h(2)] fr by (simp_all add: p'')
qed

lemma point_value_online:
  assumes "pclass p \<in> {NumericPoint, BooleanPoint, EnumPoint, StringPoint}"
  shows "point_value to_datetime lastValue net p now1 now2 now3 = online_value net p now1 now2 now3"
  using assms by (auto simp: point_value_def)

lemma read_all_bounded:
  assumes "history_size p = Some B" "1 \<le> B"
    and "length (history_timestamp p) = length (history_value p)"
    and "length (history_value p) \<le> nat B"
    and "pclass p \<in> {NumericPoint, BooleanPoint, EnumPoint, StringPoint}"
    and "read_all to_datetime lastValue net p clocks = (q, samples)"
  shows "history_value q =
           most_recent (nat B) (history_value p @ map (\<lambda>s. history_entry (pclass p) p (snd s)) samples)
       \<and> history_timestamp q = most_recent (nat B) (history_timestamp p @ map fst samples)"
  using assms
proof (induction clocks arbitrary: p samples)
  case Nil
  then show ?case by (simp add: most_recent_short)
next
  case (Cons c clocks)
  obtain now1 now2 now3 where c: "c = (now1, now2, now3)" by (cases c)
  obtain p' r where ov: "online_value net p now1 now2 now3 = (p', r)" by force
  note pv = point_value_online[OF Cons.prems(5), of to_datetime lastValue net now1 now2 now3]
  have nd: "pclass p \<noteq> DateTimePoint" using Cons.prems(5) by auto
  show ?case
  proof (cases r)
    case (Inl e)
    note fr = online_value_Inl[OF ov[unfolded Inl]]
    have ra: "read_all to_datetime lastValue net p' clocks = (q, samples)"
      using Cons.prems(6) by (simp add: c pv ov Inl)
    have "history_value q =
       most_recent (nat B) (history_value p' @ map (\<lambda>s. history_entry (pclass p') p' (snd s)) samples)
       \<and> history_timestamp q = most_recent (nat B) (history_timestamp p' @ map fst samples)"
      by (rule Cons.IH[OF _ Cons.prems(2) _ _ _ ra]) (use fr Cons.prems in simp_all)
    then show ?thesis using fr history_entry_frame[OF fr(5), of "pclass p"] by simp
  next
    case (Inr res)
    note fr = online_value_Inr[OF ov[unfolded Inr] Cons.prems(1,2,3) nd]
    obtain rest where ra: "read_all to_datetime lastValue net p' clocks = (q, rest)"
      and ss: "samples = (now3, res) # rest"
      using Cons.prems(6) by (auto simp: c pv ov Inr split: prod.splits)
    have "history_value q =
       most_recent (nat B) (history_value p' @ map (\<lambda>s. history_entry (pclass p') p' (snd s)) rest)
       \<and> history_timestamp q = most_recent (nat B) (history_timestamp p' @ map fst rest)"
      by (rule Cons.IH[OF _ Cons.prems(2) _ _ _ ra])
         (use fr Cons.prems in \<open>simp_all add: length_most_recent\<close>)
    then show ?thesis using fr history_entry_frame[OF fr(5), of "pclass p"]
      by (simp add: ss most_recent_append)
  qed
qed

lemma Point_value_returns:
  assumes "\<forall>n req. \<exists>v. net n req = Inr v"
  shows "\<exists>p' v. Point_value net p now1 now2 = (p', Inr v)"
proof (cases "case fst (cache_previous_read p) of None \<Rightarrow> False | Some ts \<Rightarrow> now1 - ts < cache_delta")
  case True
  then show ?thesis by (simp add: Point_value_def)
next
  case False
  obtain v where "net (length (net_log p)) (NetRead (dev_address p) (ptype p) (paddress p) ''presentValue'') = Inr v"
    using assms by blast
  with False show ?thesis by (simp add: Point_value_def net_call_def)
qed

lemma online_value_returns:
  assumes "\<forall>n req. \<exists>v. net n req = Inr v"
  shows "\<exists>p' v. online_value net p now1 now2 now3 = (p', Inr v) \<and> pclass p' = pclass p"
proof -
  obtain p0 v where pv: "Point_value net p now1 now2 = (p0, Inr v)"
    using Point_value_returns[OF assms] by blast
  have "pclass (class_trend (pclass p) p0 v now3) = pclass p"
    using Point_value_frame(4)[OF pv]
    by (simp add: class_trend_def trend_def Let_def split: option.splits)
  then show ?thesis using pv by (simp add: online_value_def)
qed

lemma read_all_count:
  assumes "\<forall>n req. \<exists>v. net n req = Inr v"
    and "pclass p \<in> {NumericPoint, BooleanPoint, EnumPoint, StringPoint}"
  shows "length (snd (read_all to_datetime lastValue net p clocks)) = length clocks"
  using assms(2)
proof (induction clocks arbitrary: p)
  case Nil
  show ?case by simp
next
  case (Cons c clocks)
  obtain now1 now2 now3 where c: "c = (now1, now2, now3)" by (cases c)
  obtain p' v where ov: "online_value net p now1 now2 now3 = (p', Inr v)"
    and cl: "pclass p' = pclass p"
    using online_value_returns[OF assms(1)] by blast
  note pv = point_value_online[OF Cons.prems, of to_datetime lastValue net now1 now2 now3]
  have "length (snd (read_all to_datetime lastValue net p' clocks)) = length clocks"
    by (rule Cons.IH) (use cl Cons.prems in simp)
  then show ?case
    by (cases "read_all to_datetime lastValue net p' clocks") (simp add: c pv ov)
qed

text \<open>
  A point as \<^verbatim>\<open>Point.__init__\<close> leaves it holds one sample, so \<open>N\<close> reads that return
  leave \<open>min (1 + N) B\<close> samples.
\<close>

lemma new_point_history_after_reads:
  assumes "1 \<le> B" and "cls \<in> {NumericPoint, BooleanPoint, EnumPoint, StringPoint}"
    and "p = Point_init cls daddr vendor db pointType pointAddress pointName presentValue units (Some B) now"
    and "read_all to_datetime lastValue net p clocks = (q, samples)"
  shows "history_value q =
           most_recent (nat B) (presentValue # map (\<lambda>s. history_entry cls p (snd s)) samples)
       \<and> history_timestamp q = most_recent (nat B) (now # map fst samples)
       \<and> length (history_value q) = min (1 + length samples) (nat B)"
proof -
  have h: "history_size p = Some B" "length (history_timestamp p) = length (history_value p)"
    "length (history_value p) \<le> nat B"
    "pclass p \<in> {NumericPoint, BooleanPoint, EnumPoint, StringPoint}"
    "history_value p = [presentValue]" "history_timestamp p = [now]" "pclass p = cls"
    using assms(1,2) by (simp_all add: assms(3) Point_init_def)
  from read_all_bounded[OF h(1) assms(1) h(2,3,4) assms(4)]
  show ?thesis by (simp add: h(5,6,7) length_most_recent)
qed

text \<open>
  C4, as the code has it. A numeric, boolean, enumerated or string point of an online
  device, whose history bound is \<open>B \<ge> 1\<close> and whose history holds \<open>H \<le> B\<close> samples
  (a new point holds one, the present value given to the constructor), is read any
  number of times. Each read that returns appends one sample. Afterwards the values are
  the most recent \<open>B\<close> of the old values followed by the entries of the reads, in order,
  and likewise the timestamps; the length is \<open>min (H + N) B\<close> for \<open>N\<close> reads that
  returned; the two sequences have the same length; and when the network always
  answers, every read returns. (A timestamp point and the points of a device restored
  from the database never append: their \<^verbatim>\<open>value\<close> does not call \<^verbatim>\<open>_trend\<close>.)
\<close>

theorem history_after_reads:
  assumes "history_size p = Some B" and "1 \<le> B"
    and "length (history_timestamp p) = length (history_value p)"
    and "length (history_value p) \<le> nat B"
    and "pclass p \<in> {NumericPoint, BooleanPoint, EnumPoint, StringPoint}"
    and "read_all to_datetime lastValue net p clocks = (q, samples)"
  shows "history_value q =
           most_recent (nat B)
             (history_value p @ map (\<lambda>s. history_entry (pclass p) p (snd s)) samples)
       \<and> history_timestamp q = most_recent (nat B) (history_timestamp p @ map fst samples)
       \<and> length (history_value q) = min (length (history_value p) + length samples) (nat B)
       \<and> length (history_timestamp q) = length (history_value q)
       \<and> ((\<forall>n req. \<exists>v. net n req = Inr v) \<longrightarrow> length samples = length clocks)"
proof -
  note main = read_all_bounded[OF assms]
  have cnt: "(\<forall>n req. \<exists>v. net n req = Inr v) \<longrightarrow> length samples = length clocks"
    using read_all_count[OF _ assms(5), of net to_datetime lastValue clocks] assms(6) by simp
  have l1: "length (history_value q) = min (length (history_value p) + length samples) (nat B)"
    using main by (simp add: length_most_recent)
  have l2: "length (history_timestamp q) = length (history_value q)"
    using main assms(3) by (simp add: length_most_recent)
  show ?thesis using main cnt l1 l2 by blast
qed

text \<open>
  C4, witness: the new point with bound 5 read seven times keeps reads 3 to 7 in order,
  and its length is \<open>min (1 + 7) 5\<close>.
\<close>

theorem history_after_reads_witness:
  "history_value (fst (read_all Inr empty_table counting_net example_point example_clocks)) =
     [PInt 3, PInt 4, PInt 5, PInt 6, PInt 7]
   \<and> history_timestamp (fst (read_all Inr empty_table counting_net example_point example_clocks)) =
     [6000200, 8000200, 10000200, 12000200, 14000200]
   \<and> length (history_value (fst (read_all Inr empty_table counting_net example_point example_clocks))) =
     min (1 + 7) 5
   \<and> length (snd (read_all Inr empty_table counting_net example_point example_clocks)) = 7"
proof -
  let ?r = "read_all Inr empty_table counting_net example_point example_clocks"
  have h: "history_size example_point = Some 5" "(1::int) \<le> 5"
    "length (history_timestamp example_point) = length (history_value example_point)"
    "length (history_value example_point) \<le> nat 5"
    "pclass example_point \<in> {NumericPoint, BooleanPoint, EnumPoint, StringPoint}"
    by (simp_all add: example_point_def Point_init_def)
  have r: "?r = (fst ?r, snd ?r)" by simp
  have s: "snd ?r = [(2000200, PInt 1), (4000200, PInt 2), (6000200, PInt 3),
     (8000200, PInt 4), (10000200, PInt 5), (12000200, PInt 6), (14000200, PInt 7)]"
    by code_simp
  have hv: "history_value example_point = [PInt 20]" "history_timestamp example_point = [0]"
    "pclass example_point = NumericPoint"
    by (simp_all add: example_point_def Point_init_def)
  show ?thesis
    using history_after_reads[OF h r]
    by (simp add: s hv most_recent_def)
qed

text \<open>
  C4, counterexample to the claim as stated: one read of the new point with bound 5
  returns, and the history then holds two samples, not \<open>min 1 5\<close>. And a point of a
  device restored from the database, with the same bound, is read seven times: every
  read returns and the point is left as it was, nothing asked of the network and
  nothing appended.
\<close>

theorem history_length_counterexample:
  "snd (read_all Inr empty_table counting_net example_point [(2000000, 2000100, 2000200)]) =
       [(2000200, PInt 1)]
   \<and> history_size example_point = Some 5
   \<and> history_value
        (fst (read_all Inr empty_table counting_net example_point [(2000000, 2000100, 2000200)])) =
       [PInt 20, PInt 1]
   \<and> length (history_value
        (fst (read_all Inr empty_table counting_net example_point [(2000000, 2000100, 2000200)])))
       \<noteq> min 1 5
   \<and> length (snd (read_all Inr empty_table counting_net offline_point example_clocks)) = 7
   \<and> fst (read_all Inr empty_table counting_net offline_point example_clocks) = offline_point"
  by code_simp

section \<open>Two reads within the cache window\<close>

lemma trend_frame:
  "cache_previous_read (trend p v t) = cache_previous_read p"
  "net_log (trend p v t) = net_log p"
  by (simp_all add: trend_def Let_def split: option.splits)

lemma trend_unbounded:
  assumes "history_size p = None"
  shows "history_value (trend p v t) = history_value p @ [v]"
    "history_timestamp (trend p v t) = history_timestamp p @ [t]"
    "history_size (trend p v t) = None"
  using assms by (simp_all add: trend_def Let_def)

lemma class_trend_frame:
  "cache_previous_read (class_trend c p v t) = cache_previous_read p"
  "net_log (class_trend c p v t) = net_log p"
  by (simp_all add: class_trend_def trend_frame)

lemma Point_value_cache:
  assumes "Point_value net p now1 now2 = (p1, Inr v)"
  shows "\<exists>ts. cache_previous_read p1 = (Some ts, v)"
proof (cases "case fst (cache_previous_read p) of None \<Rightarrow> False | Some ts \<Rightarrow> now1 - ts < cache_delta")
  case True
  then have "Point_value net p now1 now2 = (p, Inr (snd (cache_previous_read p)))"
    by (simp add: Point_value_def)
  with assms have "p1 = p" "v = snd (cache_previous_read p)"
    by auto
  moreover from True obtain ts where "fst (cache_previous_read p) = Some ts"
    by (cases "fst (cache_previous_read p)") simp_all
  ultimately show ?thesis by (cases "cache_previous_read p") simp
next
  case False
  let ?req = "NetRead (dev_address p) (ptype p) (paddress p) ''presentValue''"
  show ?thesis
  proof (cases "net (length (net_log p)) ?req")
    case (Inl e)
    with False assms show ?thesis by (simp add: Point_value_def net_call_def)
  next
    case (Inr res)
    with False assms have "p1 = p\<lparr>net_log := net_log p @ [?req], cache_previous_read := (Some now2, res)\<rparr>" "v = res"
      by (auto simp: Point_value_def net_call_def)
    then show ?thesis by simp
  qed
qed

lemma Point_value_cached:
  assumes "fst (cache_previous_read p) = Some ts" and "t1 - ts < cache_delta"
  shows "Point_value net p t1 t2 = (p, Inr (snd (cache_previous_read p)))"
  using assms by (simp add: Point_value_def)

lemma online_value_first:
  assumes "online_value net p now1 now2 now3 = (p1, Inr v)"
  obtains p0 where "Point_value net p now1 now2 = (p0, Inr v)"
    and "p1 = class_trend (pclass p) p0 v now3"
proof -
  obtain p0 r where pv0: "Point_value net p now1 now2 = (p0, r)" by force
  have "r = Inr v \<and> p1 = class_trend (pclass p) p0 v now3"
    using assms by (cases r) (simp_all add: online_value_def pv0)
  then show ?thesis using pv0 that by simp
qed

lemma online_value_twice:
  assumes first: "online_value net p now1 now2 now3 = (p1, Inr v)"
    and cls: "pclass p \<noteq> DateTimePoint"
    and ts: "fst (cache_previous_read p1) = Some ts" and win: "t1 - ts < cache_delta"
  shows "online_value net p1 t1 t2 t3 = (trend p1 (history_entry (pclass p) p v) t3, Inr v)"
    and "net_log (trend p1 (history_entry (pclass p) p v) t3) = net_log p1"
    and "history_size p = None \<Longrightarrow>
           history_value (trend p1 (history_entry (pclass p) p v) t3) =
             history_value p @ [history_entry (pclass p) p v, history_entry (pclass p) p v]
         \<and> history_timestamp (trend p1 (history_entry (pclass p) p v) t3) =
             history_timestamp p @ [now3, t3]"
proof -
  obtain p0 where pv: "Point_value net p now1 now2 = (p0, Inr v)"
    and p1: "p1 = class_trend (pclass p) p0 v now3"
    using online_value_first[OF first] by blast
  note fr = Point_value_frame[OF pv]
  have he0: "history_entry (pclass p) p0 v = history_entry (pclass p) p v"
    using history_entry_frame[OF fr(5)] .
  have p1': "p1 = trend p0 (history_entry (pclass p) p v) now3"
    using p1 cls he0 by (simp add: class_trend_def)
  obtain ts0 where c0: "cache_previous_read p0 = (Some ts0, v)"
    using Point_value_cache[OF pv] by blast
  have c1: "cache_previous_read p1 = (Some ts0, v)"
    using c0 by (simp add: p1' trend_frame)
  have cl1: "pclass p1 = pclass p" "units_state p1 = units_state p"
    using fr by (simp_all add: p1' trend_def Let_def split: option.splits)
  have he1: "history_entry (pclass p) p1 v = history_entry (pclass p) p v"
    using history_entry_frame[OF cl1(2)] .
  have "Point_value net p1 t1 t2 = (p1, Inr v)"
    using Point_value_cached[OF ts win, of net t2] c1 by simp
  then show "online_value net p1 t1 t2 t3 = (trend p1 (history_entry (pclass p) p v) t3, Inr v)"
    using cls cl1 he1 by (simp add: online_value_def class_trend_def)
  show "net_log (trend p1 (history_entry (pclass p) p v) t3) = net_log p1"
    by (simp add: trend_frame)
  assume hs: "history_size p = None"
  then have hs0: "history_size p0 = None" using fr by simp
  have hs1: "history_size p1 = None" using trend_unbounded(3)[OF hs0] by (simp add: p1')
  show "history_value (trend p1 (history_entry (pclass p) p v) t3) =
             history_value p @ [history_entry (pclass p) p v, history_entry (pclass p) p v]
         \<and> history_timestamp (trend p1 (history_entry (pclass p) p v) t3) =
             history_timestamp p @ [now3, t3]"
    using trend_unbounded(1,2)[OF hs1] trend_unbounded(1,2)[OF hs0] fr
    by (simp add: p1')
qed

lemma DateTimePoint_value_twice:
  assumes first: "DateTimePoint_value to_datetime net p now1 now2 = (p1, Inr x)"
    and ts: "fst (cache_previous_read p1) = Some ts" and win: "t1 - ts < cache_delta"
  shows "DateTimePoint_value to_datetime net p1 t1 t2 = (p1, Inr x)"
proof -
  obtain p0 r where pv0: "Point_value net p now1 now2 = (p0, r)" by force
  have "\<exists>v. r = Inr v \<and> p1 = p0 \<and> to_datetime v = Inr x"
    using first by (cases r) (simp_all add: DateTimePoint_value_def pv0)
  then obtain v where pv: "Point_value net p now1 now2 = (p1, Inr v)" and x: "to_datetime v = Inr x"
    using pv0 by auto
  obtain ts0 where c1: "cache_previous_read p1 = (Some ts0, v)"
    using Point_value_cache[OF pv] by blast
  have "Point_value net p1 t1 t2 = (p1, Inr v)"
    using Point_value_cached[OF ts win, of net t2] c1 by simp
  then show ?thesis by (simp add: DateTimePoint_value_def x)
qed

lemma trend_history:
  assumes "history_value p0 = history_value p" "history_timestamp p0 = history_timestamp p"
    "history_size p0 = history_size p"
  shows "history_value (trend p0 e t) = history_value (trend p e t)"
    and "history_timestamp (trend p0 e t) = history_timestamp (trend p e t)"
    and "history_size (trend p0 e t) = history_size (trend p e t)"
  using assms by (simp_all add: trend_def Let_def split: option.splits)

lemma trend_clamped:
  assumes "history_size p = Some B"
    and "length (history_timestamp p) = length (history_value p)"
  shows "history_value (trend p res now) = most_recent (nat (max 1 B)) (history_value p @ [res])"
    and "history_timestamp (trend p res now) =
           most_recent (nat (max 1 B)) (history_timestamp p @ [now])"
    and "history_size (trend p res now) = Some (max 1 B)"
  using assms
  by (auto simp: trend_def Let_def py_slice_from_neg most_recent_short max_def)

lemma online_value_first_history:
  assumes first: "online_value net p now1 now2 now3 = (p1, Inr v)"
    and cls: "pclass p \<noteq> DateTimePoint"
  shows "history_value p1 = history_value (trend p (history_entry (pclass p) p v) now3)"
    and "history_timestamp p1 = history_timestamp (trend p (history_entry (pclass p) p v) now3)"
    and "history_size p1 = history_size (trend p (history_entry (pclass p) p v) now3)"
    and "pclass p1 = pclass p" and "units_state p1 = units_state p"
proof -
  obtain p0 where pv: "Point_value net p now1 now2 = (p0, Inr v)"
    and p1: "p1 = class_trend (pclass p) p0 v now3"
    using online_value_first[OF first] by blast
  note fr = Point_value_frame[OF pv]
  have he0: "history_entry (pclass p) p0 v = history_entry (pclass p) p v"
    using history_entry_frame[OF fr(5)] .
  have p1': "p1 = trend p0 (history_entry (pclass p) p v) now3"
    using p1 cls he0 by (simp add: class_trend_def)
  show "history_value p1 = history_value (trend p (history_entry (pclass p) p v) now3)"
    and "history_timestamp p1 = history_timestamp (trend p (history_entry (pclass p) p v) now3)"
    and "history_size p1 = history_size (trend p (history_entry (pclass p) p v) now3)"
    unfolding p1' using trend_history[OF fr(1) fr(2) fr(3)] by simp_all
  show "pclass p1 = pclass p" and "units_state p1 = units_state p"
    using fr by (simp_all add: p1' trend_def Let_def split: option.splits)
qed

lemma DateTimePoint_value_history:
  assumes "DateTimePoint_value to_datetime net p now1 now2 = (p1, r)"
  shows "history_value p1 = history_value p" and "history_timestamp p1 = history_timestamp p"
proof -
  obtain p0 r0 where pv0: "Point_value net p now1 now2 = (p0, r0)" by force
  have "p1 = p0"
    using assms by (cases r0) (simp_all add: DateTimePoint_value_def pv0)
  then show "history_value p1 = history_value p" and "history_timestamp p1 = history_timestamp p"
    using Point_value_frame[OF pv0] by simp_all
qed

text \<open>
  C2, as the code has it. A read of \<^verbatim>\<open>value\<close> on a numeric, boolean, enumerated or
  string point has returned \<open>v\<close>, and a second read tests the cache less than one
  second after the cached timestamp. The second read returns the same \<open>v\<close>, makes no
  call to the network, and runs \<^verbatim>\<open>_trend\<close> again. Each of the two reads appends its
  own entry: with no history bound, the history after the first read is the one before
  it followed by one entry, and after the second read by two; with a bound \<open>B\<close>
  (a bound below 1 counts as 1) it is the most recent \<open>B\<close> of these. On a timestamp
  point the first read leaves the history as it was, and the second read returns the
  same value and changes nothing, history included.
\<close>

theorem value_twice_in_window:
  "(pclass p \<in> {NumericPoint, BooleanPoint, EnumPoint, StringPoint}
      \<and> online_value net p now1 now2 now3 = (p1, Inr v)
      \<and> fst (cache_previous_read p1) = Some ts \<and> t1 - ts < cache_delta
    \<longrightarrow> online_value net p1 t1 t2 t3 = (trend p1 (history_entry (pclass p) p v) t3, Inr v)
        \<and> net_log (fst (online_value net p1 t1 t2 t3)) = net_log p1
        \<and> (history_size p = None \<longrightarrow>
             history_value p1 = history_value p @ [history_entry (pclass p) p v]
           \<and> history_timestamp p1 = history_timestamp p @ [now3]
           \<and> history_value (fst (online_value net p1 t1 t2 t3)) =
               history_value p @ [history_entry (pclass p) p v, history_entry (pclass p) p v]
           \<and> history_timestamp (fst (online_value net p1 t1 t2 t3)) =
               history_timestamp p @ [now3, t3])
        \<and> (\<forall>B. history_size p = Some B
               \<and> length (history_timestamp p) = length (history_value p) \<longrightarrow>
             history_value p1 =
               most_recent (nat (max 1 B)) (history_value p @ [history_entry (pclass p) p v])
           \<and> history_timestamp p1 = most_recent (nat (max 1 B)) (history_timestamp p @ [now3])
           \<and> history_value (fst (online_value net p1 t1 t2 t3)) =
               most_recent (nat (max 1 B))
                 (history_value p @ [history_entry (pclass p) p v, history_entry (pclass p) p v])
           \<and> history_timestamp (fst (online_value net p1 t1 t2 t3)) =
               most_recent (nat (max 1 B)) (history_timestamp p @ [now3, t3])))
   \<and> (pclass p = DateTimePoint
      \<and> DateTimePoint_value to_datetime net p now1 now2 = (p1, Inr x)
      \<and> fst (cache_previous_read p1) = Some ts \<and> t1 - ts < cache_delta
    \<longrightarrow> history_value p1 = history_value p
        \<and> history_timestamp p1 = history_timestamp p
        \<and> DateTimePoint_value to_datetime net p1 t1 t2 = (p1, Inr x))"
  (is "?N \<and> ?D")
proof -
  let ?e = "history_entry (pclass p) p v"
  have N: ?N
  proof (rule impI)
    assume h: "pclass p \<in> {NumericPoint, BooleanPoint, EnumPoint, StringPoint}
        \<and> online_value net p now1 now2 now3 = (p1, Inr v)
        \<and> fst (cache_previous_read p1) = Some ts \<and> t1 - ts < cache_delta"
    then have cls: "pclass p \<noteq> DateTimePoint"
      and first: "online_value net p now1 now2 now3 = (p1, Inr v)"
      and ts: "fst (cache_previous_read p1) = Some ts" and win: "t1 - ts < cache_delta"
      by auto
    note tw = online_value_twice[OF first cls ts win]
    note fh = online_value_first_history[OF first cls]
    have second: "online_value net p1 t1 t2 t3 = (trend p1 ?e t3, Inr v)"
      by (rule tw(1))
    have nl: "net_log (fst (online_value net p1 t1 t2 t3)) = net_log p1"
      by (simp add: second tw(2))
    have unb: "history_size p = None \<longrightarrow>
             history_value p1 = history_value p @ [?e]
           \<and> history_timestamp p1 = history_timestamp p @ [now3]
           \<and> history_value (fst (online_value net p1 t1 t2 t3)) = history_value p @ [?e, ?e]
           \<and> history_timestamp (fst (online_value net p1 t1 t2 t3)) =
               history_timestamp p @ [now3, t3]"
    proof (rule impI)
      assume hs: "history_size p = None"
      have "history_value p1 = history_value p @ [?e]"
        and "history_timestamp p1 = history_timestamp p @ [now3]"
        using fh(1,2) trend_unbounded(1,2)[OF hs] by simp_all
      moreover have "history_value (fst (online_value net p1 t1 t2 t3)) = history_value p @ [?e, ?e]"
        and "history_timestamp (fst (online_value net p1 t1 t2 t3)) =
               history_timestamp p @ [now3, t3]"
        using tw(3)[OF hs] by (simp_all add: second)
      ultimately show "history_value p1 = history_value p @ [?e]
           \<and> history_timestamp p1 = history_timestamp p @ [now3]
           \<and> history_value (fst (online_value net p1 t1 t2 t3)) = history_value p @ [?e, ?e]
           \<and> history_timestamp (fst (online_value net p1 t1 t2 t3)) =
               history_timestamp p @ [now3, t3]"
        by simp
    qed
    have bnd: "\<forall>B. history_size p = Some B
               \<and> length (history_timestamp p) = length (history_value p) \<longrightarrow>
             history_value p1 = most_recent (nat (max 1 B)) (history_value p @ [?e])
           \<and> history_timestamp p1 = most_recent (nat (max 1 B)) (history_timestamp p @ [now3])
           \<and> history_value (fst (online_value net p1 t1 t2 t3)) =
               most_recent (nat (max 1 B)) (history_value p @ [?e, ?e])
           \<and> history_timestamp (fst (online_value net p1 t1 t2 t3)) =
               most_recent (nat (max 1 B)) (history_timestamp p @ [now3, t3])"
    proof (intro allI impI)
      fix B
      assume b: "history_size p = Some B
               \<and> length (history_timestamp p) = length (history_value p)"
      then have hs: "history_size p = Some B"
        and len: "length (history_timestamp p) = length (history_value p)"
        by simp_all
      note tr1 = trend_clamped[OF hs len, of ?e now3]
      have v1: "history_value p1 = most_recent (nat (max 1 B)) (history_value p @ [?e])"
        and s1: "history_timestamp p1 = most_recent (nat (max 1 B)) (history_timestamp p @ [now3])"
        using fh(1,2) tr1(1,2) by simp_all
      have hs1: "history_size p1 = Some (max 1 B)"
        using fh(3) tr1(3) by simp
      have len1: "length (history_timestamp p1) = length (history_value p1)"
        using len by (simp add: v1 s1 length_most_recent)
      note tr2 = trend_clamped[OF hs1 len1, of ?e t3]
      have v2: "history_value (fst (online_value net p1 t1 t2 t3)) =
               most_recent (nat (max 1 B)) (history_value p @ [?e, ?e])"
        using tr2(1) most_recent_append[of "nat (max 1 B)" "history_value p @ [?e]" "[?e]"]
        by (simp add: second v1)
      have s2: "history_timestamp (fst (online_value net p1 t1 t2 t3)) =
               most_recent (nat (max 1 B)) (history_timestamp p @ [now3, t3])"
        using tr2(2) most_recent_append[of "nat (max 1 B)" "history_timestamp p @ [now3]" "[t3]"]
        by (simp add: second s1)
      from v1 s1 v2 s2
      show "history_value p1 = most_recent (nat (max 1 B)) (history_value p @ [?e])
           \<and> history_timestamp p1 = most_recent (nat (max 1 B)) (history_timestamp p @ [now3])
           \<and> history_value (fst (online_value net p1 t1 t2 t3)) =
               most_recent (nat (max 1 B)) (history_value p @ [?e, ?e])
           \<and> history_timestamp (fst (online_value net p1 t1 t2 t3)) =
               most_recent (nat (max 1 B)) (history_timestamp p @ [now3, t3])"
        by (intro conjI)
    qed
    from second nl unb bnd
    show "online_value net p1 t1 t2 t3 = (trend p1 ?e t3, Inr v)
        \<and> net_log (fst (online_value net p1 t1 t2 t3)) = net_log p1
        \<and> (history_size p = None \<longrightarrow>
             history_value p1 = history_value p @ [?e]
           \<and> history_timestamp p1 = history_timestamp p @ [now3]
           \<and> history_value (fst (online_value net p1 t1 t2 t3)) = history_value p @ [?e, ?e]
           \<and> history_timestamp (fst (online_value net p1 t1 t2 t3)) =
               history_timestamp p @ [now3, t3])
        \<and> (\<forall>B. history_size p = Some B
               \<and> length (history_timestamp p) = length (history_value p) \<longrightarrow>
             history_value p1 = most_recent (nat (max 1 B)) (history_value p @ [?e])
           \<and> history_timestamp p1 = most_recent (nat (max 1 B)) (history_timestamp p @ [now3])
           \<and> history_value (fst (online_value net p1 t1 t2 t3)) =
               most_recent (nat (max 1 B)) (history_value p @ [?e, ?e])
           \<and> history_timestamp (fst (online_value net p1 t1 t2 t3)) =
               most_recent (nat (max 1 B)) (history_timestamp p @ [now3, t3]))"
      by (intro conjI)
  qed
  have D: ?D
  proof (rule impI)
    assume h: "pclass p = DateTimePoint
        \<and> DateTimePoint_value to_datetime net p now1 now2 = (p1, Inr x)
        \<and> fst (cache_previous_read p1) = Some ts \<and> t1 - ts < cache_delta"
    then have "DateTimePoint_value to_datetime net p1 t1 t2 = (p1, Inr x)"
      using DateTimePoint_value_twice[of to_datetime net p now1 now2 p1 x ts t1 t2] by blast
    moreover from h have "history_value p1 = history_value p"
      and "history_timestamp p1 = history_timestamp p"
      using DateTimePoint_value_history[of to_datetime net p now1 now2 p1 "Inr x"] by blast+
    ultimately show "history_value p1 = history_value p
        \<and> history_timestamp p1 = history_timestamp p
        \<and> DateTimePoint_value to_datetime net p1 t1 t2 = (p1, Inr x)"
      by simp
  qed
  from N D show ?thesis by (rule conjI)
qed

text \<open>
  C2, witness: the unbounded numeric point read twice, 0.3 seconds apart; the numeric
  point with a history bound of 5, first read six times two seconds apart so that its
  history is full, then read twice 0.3 seconds apart; and the timestamp point read
  twice.
\<close>

theorem value_twice_in_window_witness:
  "second_read unbounded_point =
     (trend (fst (first_read unbounded_point)) (PInt 1) 2000500, Inr (PInt 1))
   \<and> snd (first_read unbounded_point) = Inr (PInt 1)
   \<and> net_log (fst (second_read unbounded_point)) = net_log (fst (first_read unbounded_point))
   \<and> history_value (fst (first_read unbounded_point)) = [PInt 20, PInt 1]
   \<and> history_value (fst (second_read unbounded_point)) = [PInt 20, PInt 1, PInt 1]
   \<and> history_timestamp (fst (second_read unbounded_point)) = [0, 2000200, 2000500]
   \<and> history_value full_point = [PInt 1, PInt 2, PInt 3, PInt 4, PInt 5]
   \<and> history_value (fst (online_value counting_net full_point 20000000 20000100 20000200)) =
       [PInt 2, PInt 3, PInt 4, PInt 5, PInt 6]
   \<and> history_value
        (fst (online_value counting_net
                (fst (online_value counting_net full_point 20000000 20000100 20000200))
                20000300 20000400 20000500)) =
       [PInt 3, PInt 4, PInt 5, PInt 6, PInt 6]
   \<and> history_timestamp
        (fst (online_value counting_net
                (fst (online_value counting_net full_point 20000000 20000100 20000200))
                20000300 20000400 20000500)) =
       [6000200, 8000200, 10000200, 20000200, 20000500]
   \<and> history_value (fst (DateTimePoint_value Inr counting_net datetime_point 2000000 2000100)) =
       [PNone]
   \<and> DateTimePoint_value Inr counting_net
        (fst (DateTimePoint_value Inr counting_net datetime_point 2000000 2000100))
        2000300 2000400 =
      (fst (DateTimePoint_value Inr counting_net datetime_point 2000000 2000100), Inr (PInt 1))"
proof -
  define p1 where "p1 = fst (first_read unbounded_point)"
  define q1 where "q1 = fst (DateTimePoint_value Inr counting_net datetime_point 2000000 2000100)"
  define f1 where "f1 = fst (online_value counting_net full_point 20000000 20000100 20000200)"
  have a: "pclass unbounded_point \<in> {NumericPoint, BooleanPoint, EnumPoint, StringPoint}"
    and hs: "history_size unbounded_point = None"
    and hv: "history_value unbounded_point = [PInt 20]" "history_timestamp unbounded_point = [0]"
    and e: "history_entry (pclass unbounded_point) unbounded_point (PInt 1) = PInt 1"
    by (simp_all add: unbounded_point_def Point_init_def)
  have b: "online_value counting_net unbounded_point 2000000 2000100 2000200 = (p1, Inr (PInt 1))"
    unfolding p1_def first_read_def by code_simp
  have c: "fst (cache_previous_read p1) = Some 2000100"
    unfolding p1_def first_read_def by code_simp
  have d: "(2000300::int) - 2000100 < cache_delta" by (simp add: cache_delta_def)
  have f: "pclass datetime_point = DateTimePoint"
    and fh: "history_value datetime_point = [PNone]"
    by (simp_all add: datetime_point_def Point_init_def)
  have g: "DateTimePoint_value Inr counting_net datetime_point 2000000 2000100 = (q1, Inr (PInt 1))"
    unfolding q1_def by code_simp
  have i: "fst (cache_previous_read q1) = Some 2000100" unfolding q1_def by code_simp
  have fa: "pclass full_point \<in> {NumericPoint, BooleanPoint, EnumPoint, StringPoint}"
    and fs: "history_size full_point = Some 5"
    and fv: "history_value full_point = [PInt 1, PInt 2, PInt 3, PInt 4, PInt 5]"
    and ft: "history_timestamp full_point = [2000200, 4000200, 6000200, 8000200, 10000200]"
    and fe: "history_entry (pclass full_point) full_point (PInt 6) = PInt 6"
    by code_simp+
  have fb: "online_value counting_net full_point 20000000 20000100 20000200 = (f1, Inr (PInt 6))"
    unfolding f1_def by code_simp
  have fc: "fst (cache_previous_read f1) = Some 20000100"
    unfolding f1_def by code_simp
  have fd: "(20000300::int) - 20000100 < cache_delta" by (simp add: cache_delta_def)
  note num = value_twice_in_window[of unbounded_point counting_net 2000000 2000100 2000200 p1
      "PInt 1" 2000100 2000300 2000400 2000500, THEN conjunct1, rule_format,
      OF conjI[OF a conjI[OF b conjI[OF c d]]]]
  note bnd = value_twice_in_window[of full_point counting_net 20000000 20000100 20000200 f1
      "PInt 6" 20000100 20000300 20000400 20000500, THEN conjunct1, rule_format,
      OF conjI[OF fa conjI[OF fb conjI[OF fc fd]]]]
  note dt = value_twice_in_window[of datetime_point counting_net 2000000 2000100 _ q1 _
      2000100 2000300 2000400 _ Inr "PInt 1", THEN conjunct2, rule_format,
      OF conjI[OF f conjI[OF g conjI[OF i d]]]]
  have s: "online_value counting_net p1 2000300 2000400 2000500 =
      (trend p1 (PInt 1) 2000500, Inr (PInt 1))"
    using num[THEN conjunct1] by (simp only: e)
  have n: "net_log (fst (online_value counting_net p1 2000300 2000400 2000500)) = net_log p1"
    by (rule num[THEN conjunct2, THEN conjunct1])
  note num3 = num[THEN conjunct2, THEN conjunct2, THEN conjunct1, rule_format, OF hs]
  have h: "history_value p1 = [PInt 20, PInt 1]"
    "history_value (fst (online_value counting_net p1 2000300 2000400 2000500)) =
      [PInt 20, PInt 1, PInt 1]"
    "history_timestamp (fst (online_value counting_net p1 2000300 2000400 2000500)) =
      [0, 2000200, 2000500]"
    using num3 by (simp_all only: e hv append.simps)
  have fl: "history_size full_point = Some 5
      \<and> length (history_timestamp full_point) = length (history_value full_point)"
    by (simp add: fs fv ft)
  note bnd3 = bnd[THEN conjunct2, THEN conjunct2, THEN conjunct2, rule_format, OF fl]
  have k: "history_value f1 = [PInt 2, PInt 3, PInt 4, PInt 5, PInt 6]"
    "history_value (fst (online_value counting_net f1 20000300 20000400 20000500)) =
      [PInt 3, PInt 4, PInt 5, PInt 6, PInt 6]"
    "history_timestamp (fst (online_value counting_net f1 20000300 20000400 20000500)) =
      [6000200, 8000200, 10000200, 20000200, 20000500]"
    using bnd3 by (simp_all add: fe fv ft most_recent_def)
  have fr: "snd (first_read unbounded_point) = Inr (PInt 1)"
    using b by (simp add: first_read_def)
  have dh: "history_value q1 = [PNone]"
    using dt[THEN conjunct1] by (simp only: fh)
  have dv: "DateTimePoint_value Inr counting_net q1 2000300 2000400 = (q1, Inr (PInt 1))"
    by (rule dt[THEN conjunct2, THEN conjunct2])
  show ?thesis
    unfolding second_read_def p1_def[symmetric] q1_def[symmetric] f1_def[symmetric]
    using s n h k fr dh dv fv by simp
qed

text \<open>
  C2, counterexample to the claim as stated: both reads return 1, the second makes no
  network call, and the history has grown by two entries, not one.
\<close>

theorem two_reads_two_entries_counterexample:
  "snd (first_read unbounded_point) = Inr (PInt 1)
   \<and> snd (second_read unbounded_point) = Inr (PInt 1)
   \<and> net_log (fst (second_read unbounded_point)) = net_log (fst (first_read unbounded_point))
   \<and> history_value unbounded_point = [PInt 20]
   \<and> history_value (fst (second_read unbounded_point)) = [PInt 20, PInt 1, PInt 1]
   \<and> length (history_value (fst (second_read unbounded_point))) \<noteq>
       length (history_value unbounded_point) + 1"
  by code_simp

section \<open>Polling\<close>


text \<open>
  \<^verbatim>\<open>_poll\<close> sets and clears the task and the running flag together: from a state
  where they agree, as the constructor leaves them, it never raises.
\<close>

lemma poll_keeps_task_and_flag_together:
  assumes "polling_running p = (polling_task p \<noteq> None)"
  shows "snd (Point_poll_coroutine p command delay) = None
       \<and> polling_running (fst (Point_poll_coroutine p command delay)) =
           (polling_task (fst (Point_poll_coroutine p command delay)) \<noteq> None)"
  using assms by (cases "polling_task p") (simp_all add: Point_poll_coroutine_def)




section \<open>Setting a point\<close>

lemma net_call_log:
  "net_log (fst (net_call net p req)) = net_log p @ [req]"
  "snd (net_call net p req) = net (length (net_log p)) req"
  "tasks (fst (net_call net p req)) = tasks p"
  "simulated (fst (net_call net p req)) = simulated p"
  by (simp_all add: net_call_def)

lemma release_effect:
  "net_log (fst (release net p)) =
     net_log p @ [NetRelease (dev_address p) (ptype p) (paddress p) ''outOfService'' ''inactive'']"
  "tasks (fst (release net p)) = tasks p"
  "net (length (net_log p))
       (NetRelease (dev_address p) (ptype p) (paddress p) ''outOfService'' ''inactive'') = Inr r
   \<Longrightarrow> snd (release net p) = None \<and> simulated (fst (release net p)) = (False, PNone)"
  "net (length (net_log p))
       (NetRelease (dev_address p) (ptype p) (paddress p) ''outOfService'' ''inactive'') = Inl e
   \<Longrightarrow> snd (release net p) = Some e \<and> simulated (fst (release net p)) = simulated p"
  by (simp_all add: release_def net_call_def split: sum.splits)

lemma sim_effect:
  "fst (simulated p) \<and> py_eq (snd (simulated p)) v \<Longrightarrow> sim net p v False = (p, None)"
  "\<not> (fst (simulated p) \<and> py_eq (snd (simulated p)) v) \<Longrightarrow>
     net_log (fst (sim net p v False)) =
       net_log p @ [NetSim (dev_address p) (ptype p) (paddress p) ''presentValue'' v]
     \<and> tasks (fst (sim net p v False)) = tasks p"
  "\<not> (fst (simulated p) \<and> py_eq (snd (simulated p)) v) \<Longrightarrow>
   net (length (net_log p))
       (NetSim (dev_address p) (ptype p) (paddress p) ''presentValue'' v) = Inr r
   \<Longrightarrow> snd (sim net p v False) = None \<and> simulated (fst (sim net p v False)) = (True, v)"
  "\<not> (fst (simulated p) \<and> py_eq (snd (simulated p)) v) \<Longrightarrow>
   net (length (net_log p))
       (NetSim (dev_address p) (ptype p) (paddress p) ''presentValue'' v) = Inl e
   \<Longrightarrow> snd (sim net p v False) = Some e \<and> simulated (fst (sim net p v False)) = simulated p"
  by (auto simp: sim_def net_call_def split: sum.splits)

text \<open>
  C1, as the code has it. \<^verbatim>\<open>_setitem\<close> routes by the text of the object type, tested
  in this order. A type containing \<^verbatim>\<open>characterstring\<close>: every value, \<^verbatim>\<open>"auto"\<close>
  included, is written directly (a write task with the default priority). Otherwise a
  type containing \<^verbatim>\<open>value\<close>: the value is written directly, unless it is
  \<^verbatim>\<open>"auto"\<close> in any letter case, which raises \<^verbatim>\<open>ValueError\<close> and writes nothing.
  Otherwise a type containing \<^verbatim>\<open>output\<close>: the value is written at priority 8 and the
  point marked overridden, or, for \<^verbatim>\<open>"auto"\<close>, null is written at priority 8 and the
  mark cleared. Every other type: \<^verbatim>\<open>"auto"\<close> sends the release request and, once
  answered, clears the simulation mark; another value sends the simulation request and,
  once answered, marks the point simulated with it, unless the point is already
  simulated with that same value, in which case nothing is sent.
\<close>

theorem setitem_routing:
  "(py_in ''characterstring'' (ptype p) \<longrightarrow>
      setitem net p v = (p\<lparr>tasks := tasks p @ [WriteTask v ''presentValue'' (PStr ''16'')]\<rparr>, None))
   \<and> (\<not> py_in ''characterstring'' (ptype p) \<and> py_in ''value'' (ptype p) \<longrightarrow>
        (\<not> str_lower_is v ''auto'' \<longrightarrow>
           setitem net p v =
             (p\<lparr>tasks := tasks p @ [WriteTask v ''presentValue'' (PStr ''16'')]\<rparr>, None))
      \<and> (str_lower_is v ''auto'' \<longrightarrow>
           setitem net p v =
             (p, Some (ValueError ''Value was not simulated or overridden, cannot release to auto''))))
   \<and> (\<not> py_in ''characterstring'' (ptype p) \<and> \<not> py_in ''value'' (ptype p)
        \<and> py_in ''output'' (ptype p) \<longrightarrow>
        (\<not> str_lower_is v ''auto'' \<longrightarrow>
           setitem net p v =
             (p\<lparr>tasks := tasks p @ [WriteTask v ''presentValue'' (PInt 8)],
                overridden := (True, v)\<rparr>, None))
      \<and> (str_lower_is v ''auto'' \<longrightarrow>
           setitem net p v =
             (p\<lparr>tasks := tasks p @ [WriteTask (PStr ''null'') ''presentValue'' (PInt 8)],
                overridden := (False, PInt 0)\<rparr>, None)))
   \<and> (\<not> py_in ''characterstring'' (ptype p) \<and> \<not> py_in ''value'' (ptype p)
        \<and> \<not> py_in ''output'' (ptype p) \<longrightarrow>
        (str_lower_is v ''auto'' \<longrightarrow>
           net_log (fst (setitem net p v)) =
             net_log p @
               [NetRelease (dev_address p) (ptype p) (paddress p) ''outOfService'' ''inactive'']
         \<and> tasks (fst (setitem net p v)) = tasks p
         \<and> (\<forall>r. net (length (net_log p))
                   (NetRelease (dev_address p) (ptype p) (paddress p) ''outOfService'' ''inactive'')
                 = Inr r \<longrightarrow>
               snd (setitem net p v) = None
             \<and> simulated (fst (setitem net p v)) = (False, PNone)))
      \<and> (\<not> str_lower_is v ''auto'' \<and> fst (simulated p) \<and> py_eq (snd (simulated p)) v \<longrightarrow>
           setitem net p v = (p, None))
      \<and> (\<not> str_lower_is v ''auto'' \<and> \<not> (fst (simulated p) \<and> py_eq (snd (simulated p)) v) \<longrightarrow>
           net_log (fst (setitem net p v)) =
             net_log p @ [NetSim (dev_address p) (ptype p) (paddress p) ''presentValue'' v]
         \<and> tasks (fst (setitem net p v)) = tasks p
         \<and> (\<forall>r. net (length (net_log p))
                   (NetSim (dev_address p) (ptype p) (paddress p) ''presentValue'' v) = Inr r \<longrightarrow>
               snd (setitem net p v) = None
             \<and> simulated (fst (setitem net p v)) = (True, v))))"
proof (intro conjI impI allI)
  assume "py_in ''characterstring'' (ptype p)"
  then show "setitem net p v =
      (p\<lparr>tasks := tasks p @ [WriteTask v ''presentValue'' (PStr ''16'')]\<rparr>, None)"
    by (simp add: setitem_def create_write_task_def)
next
  assume "\<not> py_in ''characterstring'' (ptype p) \<and> py_in ''value'' (ptype p)"
    and "\<not> str_lower_is v ''auto''"
  then show "setitem net p v =
      (p\<lparr>tasks := tasks p @ [WriteTask v ''presentValue'' (PStr ''16'')]\<rparr>, None)"
    by (simp add: setitem_def create_write_task_def)
next
  assume "\<not> py_in ''characterstring'' (ptype p) \<and> py_in ''value'' (ptype p)"
    and "str_lower_is v ''auto''"
  then show "setitem net p v =
      (p, Some (ValueError ''Value was not simulated or overridden, cannot release to auto''))"
    by (simp add: setitem_def)
next
  assume "\<not> py_in ''characterstring'' (ptype p) \<and> \<not> py_in ''value'' (ptype p)
        \<and> py_in ''output'' (ptype p)"
    and "\<not> str_lower_is v ''auto''"
  then show "setitem net p v =
      (p\<lparr>tasks := tasks p @ [WriteTask v ''presentValue'' (PInt 8)],
         overridden := (True, v)\<rparr>, None)"
    by (simp add: setitem_def ovr_def create_write_task_def)
next
  assume "\<not> py_in ''characterstring'' (ptype p) \<and> \<not> py_in ''value'' (ptype p)
        \<and> py_in ''output'' (ptype p)"
    and "str_lower_is v ''auto''"
  then show "setitem net p v =
      (p\<lparr>tasks := tasks p @ [WriteTask (PStr ''null'') ''presentValue'' (PInt 8)],
         overridden := (False, PInt 0)\<rparr>, None)"
    by (simp add: setitem_def auto_def create_write_task_def)
next
  assume k: "\<not> py_in ''characterstring'' (ptype p) \<and> \<not> py_in ''value'' (ptype p)
        \<and> \<not> py_in ''output'' (ptype p)"
    and a: "str_lower_is v ''auto''"
  then have eq: "setitem net p v = release net p" by (simp add: setitem_def)
  show "net_log (fst (setitem net p v)) =
      net_log p @ [NetRelease (dev_address p) (ptype p) (paddress p) ''outOfService'' ''inactive'']"
    by (simp only: eq release_effect(1))
  show "tasks (fst (setitem net p v)) = tasks p"
    by (simp only: eq release_effect(2))
  fix r
  assume "net (length (net_log p))
      (NetRelease (dev_address p) (ptype p) (paddress p) ''outOfService'' ''inactive'') = Inr r"
  from release_effect(3)[of net p r, OF this]
  show "snd (setitem net p v) = None" and "simulated (fst (setitem net p v)) = (False, PNone)"
    by (simp_all only: eq)
next
  assume "\<not> py_in ''characterstring'' (ptype p) \<and> \<not> py_in ''value'' (ptype p)
        \<and> \<not> py_in ''output'' (ptype p)"
    and "\<not> str_lower_is v ''auto'' \<and> fst (simulated p) \<and> py_eq (snd (simulated p)) v"
  then show "setitem net p v = (p, None)"
    using sim_effect(1)[of p v net] by (simp add: setitem_def)
next
  assume k: "\<not> py_in ''characterstring'' (ptype p) \<and> \<not> py_in ''value'' (ptype p)
        \<and> \<not> py_in ''output'' (ptype p)"
    and a: "\<not> str_lower_is v ''auto'' \<and> \<not> (fst (simulated p) \<and> py_eq (snd (simulated p)) v)"
  then have eq: "setitem net p v = sim net p v False" by (simp add: setitem_def)
  from a have g: "\<not> (fst (simulated p) \<and> py_eq (snd (simulated p)) v)" by simp
  show "net_log (fst (setitem net p v)) =
      net_log p @ [NetSim (dev_address p) (ptype p) (paddress p) ''presentValue'' v]"
    and "tasks (fst (setitem net p v)) = tasks p"
    using sim_effect(2)[OF g, of net] by (simp_all only: eq)
  fix r
  assume "net (length (net_log p))
      (NetSim (dev_address p) (ptype p) (paddress p) ''presentValue'' v) = Inr r"
  from sim_effect(3)[of p v net r, OF g this]
  show "snd (setitem net p v) = None" and "simulated (fst (setitem net p v)) = (True, v)"
    by (simp_all only: eq)
qed

text \<open>
  C1, witness: each branch on a concrete point. The character string value takes
  \<^verbatim>\<open>"auto"\<close> as text to write; the analog value takes 22 and refuses \<^verbatim>\<open>"Auto"\<close>;
  the analog output is overridden at 50 and released; the analog input is released,
  simulated at 30, and left alone when it is already simulated at 30.
\<close>

theorem setitem_routing_witness:
  "setitem counting_net string_point (PStr ''auto'') =
     (string_point\<lparr>tasks := [WriteTask (PStr ''auto'') ''presentValue'' (PStr ''16'')]\<rparr>, None)
   \<and> setitem counting_net value_point (PInt 22) =
     (value_point\<lparr>tasks := [WriteTask (PInt 22) ''presentValue'' (PStr ''16'')]\<rparr>, None)
   \<and> setitem counting_net value_point (PStr ''Auto'') =
     (value_point, Some (ValueError ''Value was not simulated or overridden, cannot release to auto''))
   \<and> setitem counting_net output_point (PInt 50) =
     (output_point\<lparr>tasks := [WriteTask (PInt 50) ''presentValue'' (PInt 8)],
        overridden := (True, PInt 50)\<rparr>, None)
   \<and> setitem counting_net output_point (PStr ''auto'') =
     (output_point\<lparr>tasks := [WriteTask (PStr ''null'') ''presentValue'' (PInt 8)],
        overridden := (False, PInt 0)\<rparr>, None)
   \<and> net_log (fst (setitem counting_net example_point (PStr ''auto''))) =
     [NetRelease ''2:5'' ''analog-input'' 1 ''outOfService'' ''inactive'']
   \<and> simulated (fst (setitem counting_net example_point (PStr ''auto''))) = (False, PNone)
   \<and> net_log (fst (setitem counting_net example_point (PInt 30))) =
     [NetSim ''2:5'' ''analog-input'' 1 ''presentValue'' (PInt 30)]
   \<and> simulated (fst (setitem counting_net example_point (PInt 30))) = (True, PInt 30)
   \<and> setitem counting_net simulated_point (PInt 30) = (simulated_point, None)"
proof -
  have ty: "ptype string_point = ''characterstring-value''" "ptype value_point = ''analog-value''"
    "ptype output_point = ''analog-output''" "ptype example_point = ''analog-input''"
    "ptype simulated_point = ''analog-input''"
    by (simp_all add: string_point_def value_point_def output_point_def example_point_def
        simulated_point_def Point_init_def)
  have k: "py_in ''characterstring'' ''characterstring-value''"
    "\<not> py_in ''characterstring'' ''analog-value''" "py_in ''value'' ''analog-value''"
    "\<not> py_in ''characterstring'' ''analog-output''" "\<not> py_in ''value'' ''analog-output''"
    "py_in ''output'' ''analog-output''"
    "\<not> py_in ''characterstring'' ''analog-input''" "\<not> py_in ''value'' ''analog-input''"
    "\<not> py_in ''output'' ''analog-input''"
    by code_simp+
  have a: "lower ''auto'' = ''auto''" "lower ''Auto'' = ''auto''"
    by code_simp+
  have f: "tasks string_point = []" "tasks value_point = []" "tasks output_point = []"
    "tasks example_point = []" "net_log example_point = []"
    "dev_address example_point = ''2:5''" "paddress example_point = 1"
    "simulated example_point = (False, PInt 0)" "simulated simulated_point = (True, PInt 30)"
    by (simp_all add: string_point_def value_point_def output_point_def example_point_def
        simulated_point_def Point_init_def)
  show ?thesis
    using setitem_routing[of string_point counting_net "PStr ''auto''"]
      setitem_routing[of value_point counting_net "PInt 22"]
      setitem_routing[of value_point counting_net "PStr ''Auto''"]
      setitem_routing[of output_point counting_net "PInt 50"]
      setitem_routing[of output_point counting_net "PStr ''auto''"]
      setitem_routing[of example_point counting_net "PStr ''auto''"]
      setitem_routing[of example_point counting_net "PInt 30"]
      setitem_routing[of simulated_point counting_net "PInt 30"]
    by (simp add: ty k a f counting_net_def)
qed

text \<open>
  C1, counterexample to the claim as stated: the value \<^verbatim>\<open>"auto"\<close> destined for an analog
  value is not written; \<^verbatim>\<open>_setitem\<close> raises and creates no task.
\<close>

theorem setitem_value_auto_counterexample:
  "py_in ''value'' (ptype value_point)
   \<and> setitem counting_net value_point (PStr ''auto'') =
       (value_point, Some (ValueError ''Value was not simulated or overridden, cannot release to auto''))
   \<and> tasks (fst (setitem counting_net value_point (PStr ''auto''))) = []"
  by code_simp

text \<open>
  C8, as the code has it. On a point of output kind (its type contains \<^verbatim>\<open>output\<close> and
  neither \<^verbatim>\<open>characterstring\<close> nor \<^verbatim>\<open>value\<close>), \<^verbatim>\<open>_setitem\<close> with \<^verbatim>\<open>"auto"\<close>
  in any letter case never raises, whether or not the point is overridden: it creates
  the task that writes null at priority 8, sets the override mark to
  \<^verbatim>\<open>(False, 0)\<close> and calls nothing on the network.
\<close>

theorem output_auto_releases:
  "\<not> py_in ''characterstring'' (ptype p) \<and> \<not> py_in ''value'' (ptype p)
     \<and> py_in ''output'' (ptype p) \<and> str_lower_is v ''auto''
   \<longrightarrow> snd (setitem net p v) = None
     \<and> tasks (fst (setitem net p v)) =
         tasks p @ [WriteTask (PStr ''null'') ''presentValue'' (PInt 8)]
     \<and> overridden (fst (setitem net p v)) = (False, PInt 0)
     \<and> net_log (fst (setitem net p v)) = net_log p"
  by (simp add: setitem_def auto_def create_write_task_def)

text \<open>
  C8, witness: the analog output that is not overridden, and the one overridden at 50.
\<close>

theorem output_auto_releases_witness:
  "overridden output_point = (False, PInt 0)
   \<and> snd (setitem counting_net output_point (PStr ''auto'')) = None
   \<and> tasks (fst (setitem counting_net output_point (PStr ''auto''))) =
       [WriteTask (PStr ''null'') ''presentValue'' (PInt 8)]
   \<and> overridden overridden_point = (True, PInt 50)
   \<and> snd (setitem counting_net overridden_point (PStr ''AUTO'')) = None
   \<and> overridden (fst (setitem counting_net overridden_point (PStr ''AUTO''))) = (False, PInt 0)"
proof -
  have ty: "ptype output_point = ''analog-output''" "ptype overridden_point = ''analog-output''"
    "tasks output_point = []" "overridden output_point = (False, PInt 0)"
    "overridden overridden_point = (True, PInt 50)"
    by (simp_all add: output_point_def overridden_point_def Point_init_def)
  have k: "\<not> py_in ''characterstring'' ''analog-output''" "\<not> py_in ''value'' ''analog-output''"
    "py_in ''output'' ''analog-output''"
    "lower ''auto'' = ''auto''" "lower ''AUTO'' = ''auto''"
    by code_simp+
  show ?thesis
    using output_auto_releases[of output_point "PStr ''auto''" counting_net]
      output_auto_releases[of overridden_point "PStr ''AUTO''" counting_net]
    by (simp add: ty k)
qed

text \<open>
  C8, counterexample to the claim as stated: the analog output is not overridden,
  receives \<^verbatim>\<open>"auto"\<close>, and no exception is raised.
\<close>

theorem output_auto_no_error_counterexample:
  "py_in ''output'' (ptype output_point)
   \<and> fst (overridden output_point) = False
   \<and> snd (setitem counting_net output_point (PStr ''auto'')) = None"
  by code_simp

section \<open>Override detection\<close>

lemma is_overridden_value: "snd (is_overridden p) = (priority_array p \<noteq> PA_False)"
  by (simp add: is_overridden_def)

text \<open>
  C3, the code at the failing input. The analog output holds a priority array of sixteen
  empty slots, and an awaited \<^verbatim>\<open>priority(8)\<close> and \<^verbatim>\<open>priority(1)\<close> on a network
  that reports sixteen empty slots both give \<^verbatim>\<open>None\<close>; yet \<^verbatim>\<open>is_overridden\<close> is
  true. \<^verbatim>\<open>release_ovr\<close> creates the two writes of null, at priorities 1 and 8, and
  clears the mark; \<^verbatim>\<open>is_overridden\<close> is still true afterwards.
\<close>

theorem is_overridden_ignores_slots:
  "priority_array idle_output = PA_List (replicate 16 PNone)
   \<and> snd (priority null_array_net idle_output 8) = Inr PNone
   \<and> snd (priority null_array_net idle_output 1) = Inr PNone
   \<and> snd (is_overridden idle_output) = True
   \<and> tasks (release_ovr idle_output) =
       [WriteTask (PStr ''null'') ''presentValue'' (PInt 1),
        WriteTask (PStr ''null'') ''presentValue'' (PInt 8)]
   \<and> overridden (release_ovr idle_output) = (False, PNone)
   \<and> snd (is_overridden (release_ovr idle_output)) = True"
  by code_simp

section \<open>Construction of a device\<close>

text \<open>
  C9. Without a backup file (\<^verbatim>\<open>from_backup\<close> is \<^verbatim>\<open>None\<close> or empty), the constructor
  raises \<^verbatim>\<open>BadDeviceDefinition\<close> and leaves \<^verbatim>\<open>initialized\<close> false when the network
  handle is missing, or the address is missing (\<^verbatim>\<open>None\<close> or empty), or the device
  identifier is \<^verbatim>\<open>None\<close>; when all three are there it returns, with
  \<^verbatim>\<open>initialized\<close> true and the three stored.
\<close>

theorem Device_init_validates:
  "\<not> truthy_str from_backup \<longrightarrow>
     ((network = None \<or> \<not> truthy_str address \<or> device_id = None) \<longrightarrow>
        snd (Device_init isfile address device_id network poll from_backup seg hsize reconnect) =
          Some (BadDeviceDefinition
            ''Please provide address, device id and network or specify from_backup argument'')
      \<and> \<not> initialized
            (fst (Device_init isfile address device_id network poll from_backup seg hsize reconnect)))
   \<and> (network \<noteq> None \<and> truthy_str address \<and> device_id \<noteq> None \<longrightarrow>
        snd (Device_init isfile address device_id network poll from_backup seg hsize reconnect) = None
      \<and> initialized
            (fst (Device_init isfile address device_id network poll from_backup seg hsize reconnect))
      \<and> d_address
            (fst (Device_init isfile address device_id network poll from_backup seg hsize reconnect)) =
          address
      \<and> d_device_id
            (fst (Device_init isfile address device_id network poll from_backup seg hsize reconnect)) =
          device_id
      \<and> d_network
            (fst (Device_init isfile address device_id network poll from_backup seg hsize reconnect)) =
          network)"
proof (intro impI conjI)
  assume nb: "\<not> truthy_str from_backup"
    and miss: "network = None \<or> \<not> truthy_str address \<or> device_id = None"
  let ?r = "Device_init isfile address device_id network poll from_backup seg hsize reconnect"
  from miss have "\<not> (network \<noteq> None \<and> truthy_str address \<and> device_id \<noteq> None)" by blast
  with nb show "snd ?r = Some (BadDeviceDefinition
      ''Please provide address, device id and network or specify from_backup argument'')"
    and "\<not> initialized (fst ?r)"
    by (simp_all add: Device_init_def Let_def)
next
  assume nb: "\<not> truthy_str from_backup"
    and ok: "network \<noteq> None \<and> truthy_str address \<and> device_id \<noteq> None"
  let ?r = "Device_init isfile address device_id network poll from_backup seg hsize reconnect"
  from nb ok show "snd ?r = None" "initialized (fst ?r)" "d_address (fst ?r) = address"
    "d_device_id (fst ?r) = device_id" "d_network (fst ?r) = network"
    by (simp_all add: Device_init_def Let_def)
qed

text \<open>
  C9, witness: no network, no address, an empty address, no device identifier; then all
  three, with device identifier 0.
\<close>

theorem Device_init_validates_witness:
  "snd (Device_init example_disk (Some ''2:5'') (Some 5) None 10 None True None True) =
     Some (BadDeviceDefinition
       ''Please provide address, device id and network or specify from_backup argument'')
   \<and> \<not> initialized (fst (Device_init example_disk (Some ''2:5'') (Some 5) None 10 None True None True))
   \<and> snd (Device_init example_disk None (Some 5) (Some 1) 10 None True None True) =
     Some (BadDeviceDefinition
       ''Please provide address, device id and network or specify from_backup argument'')
   \<and> snd (Device_init example_disk (Some []) (Some 5) (Some 1) 10 (Some []) True None True) =
     Some (BadDeviceDefinition
       ''Please provide address, device id and network or specify from_backup argument'')
   \<and> \<not> initialized (fst (Device_init example_disk (Some ''2:5'') None (Some 1) 10 None True None True))
   \<and> snd (Device_init example_disk (Some ''2:5'') (Some 0) (Some 1) 10 None True None True) = None
   \<and> initialized (fst (Device_init example_disk (Some ''2:5'') (Some 0) (Some 1) 10 None True None True))"
  using Device_init_validates[of None None "Some ''2:5''" "Some 5" example_disk 10 True None True]
    Device_init_validates[of None "Some 1" None "Some 5" example_disk 10 True None True]
    Device_init_validates[of "Some []" "Some 1" "Some []" "Some 5" example_disk 10 True None True]
    Device_init_validates[of None "Some 1" "Some ''2:5''" None example_disk 10 True None True]
    Device_init_validates[of None "Some 1" "Some ''2:5''" "Some 0" example_disk 10 True None True]
  by simp





section \<open>Connecting a disconnected device\<close>

subsection \<open>When the entry actions complete\<close>








subsection \<open>What \<^verbatim>\<open>connect\<close> enters\<close>





subsection \<open>The states a device can be in\<close>
















section \<open>Operations without a live network\<close>

lemma py_contains_error: "py_contains sub u = Inl e \<Longrightarrow> e = TypeError"
  by (cases u) simp_all

lemma units_containing_error: "units_containing sub kvs = Inl e \<Longrightarrow> e = TypeError"
proof (induction sub kvs rule: units_containing.induct)
  case (1 sub)
  then show ?case by simp
next
  case (2 sub k u rest)
  show ?case
  proof (cases "py_contains sub u")
    case (Inl e')
    with "2.prems" py_contains_error[OF Inl] show ?thesis by simp
  next
    case (Inr b)
    with "2.prems" "2.IH"[OF Inr] show ?thesis
      by (cases "units_containing sub rest") simp_all
  qed
qed

lemma DeviceConnected_op_not_connected:
  "DeviceConnected_op d op = Some r \<Longrightarrow> \<not> not_connected (Some r)"
proof (cases op)
  case (Op_getitem k)
  assume "DeviceConnected_op d op = Some r"
  with Op_getitem show ?thesis
    by (cases k) (auto simp: findPoint_def split: option.splits sum.splits if_splits)
next
  case Op_temperatures
  assume "DeviceConnected_op d op = Some r"
  with Op_temperatures show ?thesis
    using units_containing_error[of "''deg''" "analog_units d"]
    by (cases "units_containing ''deg'' (analog_units d)") auto
next
  case Op_percent
  assume "DeviceConnected_op d op = Some r"
  with Op_percent show ?thesis
    using units_containing_error[of "''percent''" "analog_units d"]
    by (cases "units_containing ''percent'' (analog_units d)") auto
next
  case (Op_findPoint name)
  assume "DeviceConnected_op d op = Some r"
  with Op_findPoint show ?thesis
    by (auto simp: findPoint_def split: option.splits)
qed auto


text \<open>
  C7, as the code has it. In state \<^verbatim>\<open>DeviceDisconnected\<close> every operation listed
  raises \<^verbatim>\<open>DeviceNotConnected\<close> (all but the generator \<^verbatim>\<open>simulated_points\<close>). In
  state \<^verbatim>\<open>DeviceFromDB\<close> the operations that the class overrides raise it:
  \<^verbatim>\<open>simulated_points\<close>, \<^verbatim>\<open>_buildPointList\<close>, \<^verbatim>\<open>read_multiple\<close>, \<^verbatim>\<open>poll\<close>,
  \<^verbatim>\<open>__contains__\<close>, \<^verbatim>\<open>to_excel\<close>, \<^verbatim>\<open>__setitem__\<close>, \<^verbatim>\<open>_discoverPoints\<close>. The
  others are those of \<^verbatim>\<open>DeviceConnected\<close> and never raise \<^verbatim>\<open>DeviceNotConnected\<close>:
  lookup and indexing, \<^verbatim>\<open>df\<close>, iteration, \<^verbatim>\<open>points_name\<close>, length and the
  aggregate views answer from the points restored from the database.
\<close>

theorem operations_without_network:
  "(dclass d = DeviceDisconnected \<and> op \<noteq> Op_simulated_points \<longrightarrow>
      not_connected (device_op d op))
   \<and> (dclass d = DeviceFromDB \<longrightarrow>
        ((op \<in> {Op_simulated_points, Op_buildPointList, Op_read_multiple, Op_to_excel,
                 Op_discoverPoints}
            \<or> (\<exists>command delay. op = Op_poll command delay)
            \<or> (\<exists>v. op = Op_contains v)
            \<or> (\<exists>name v. op = Op_setitem name v)) \<longrightarrow>
           device_op d op = Some (Inl (DeviceNotConnected ''Must connect to BACnet or database'')))
      \<and> ((op \<in> {Op_iter, Op_points_name, Op_len, Op_analog_units, Op_temperatures, Op_percent,
                 Op_multi_states, Op_binary_states}
            \<or> (\<exists>names. op = Op_df names)
            \<or> (\<exists>k. op = Op_getitem k)
            \<or> (\<exists>name. op = Op_findPoint name)) \<longrightarrow>
           device_op d op = DeviceConnected_op d op
         \<and> device_op d op \<noteq> None
         \<and> \<not> not_connected (device_op d op))
      \<and> device_op d Op_len = Some (Inr (RInt (length (points d))))
      \<and> device_op d Op_iter = Some (Inr (RPoints (points d)))
      \<and> device_op d Op_points_name = Some (Inr (RNames (map pname (points d))))
      \<and> device_op d Op_analog_units = Some (Inr (RDict (analog_units d))))"
proof (intro conjI impI)
  assume "dclass d = DeviceDisconnected \<and> op \<noteq> Op_simulated_points"
  then show "not_connected (device_op d op)"
    by (cases op) (simp_all add: device_op_def)
next
  assume db: "dclass d = DeviceFromDB"
  then have eq: "device_op d op' = Some (DeviceFromDB_op d op')" for op'
    by (simp add: device_op_def)
  {
    assume "op \<in> {Op_simulated_points, Op_buildPointList, Op_read_multiple, Op_to_excel,
                 Op_discoverPoints}
            \<or> (\<exists>command delay. op = Op_poll command delay)
            \<or> (\<exists>v. op = Op_contains v)
            \<or> (\<exists>name v. op = Op_setitem name v)"
    then have "DeviceFromDB_own op" by auto
    then show "device_op d op = Some (Inl (DeviceNotConnected ''Must connect to BACnet or database''))"
      by (simp add: eq DeviceFromDB_op_def)
  }
  {
    assume inh: "op \<in> {Op_iter, Op_points_name, Op_len, Op_analog_units, Op_temperatures, Op_percent,
                 Op_multi_states, Op_binary_states}
            \<or> (\<exists>names. op = Op_df names)
            \<or> (\<exists>k. op = Op_getitem k)
            \<or> (\<exists>name. op = Op_findPoint name)"
    then have own: "\<not> DeviceFromDB_own op" by auto
    from inh obtain r where r: "DeviceConnected_op d op = Some r"
    proof (cases op)
      case (Op_getitem k)
      then show ?thesis using that by (cases k) simp_all
    qed auto
    with own show same: "device_op d op = DeviceConnected_op d op"
      by (simp add: eq DeviceFromDB_op_def)
    from r same show "device_op d op \<noteq> None" by simp
    from DeviceConnected_op_not_connected[OF r] r same
    show "\<not> not_connected (device_op d op)" by simp
  }
  show "device_op d Op_len = Some (Inr (RInt (length (points d))))"
    and "device_op d Op_iter = Some (Inr (RPoints (points d)))"
    and "device_op d Op_points_name = Some (Inr (RNames (map pname (points d))))"
    and "device_op d Op_analog_units = Some (Inr (RDict (analog_units d)))"
    by (simp_all add: eq DeviceFromDB_op_def)
qed

text \<open>
  C7, witness: on the disconnected device the length, a lookup and a poll raise; on the
  device restored from the database a poll and a write by name raise, and the length,
  the lookup of \<^verbatim>\<open>temp\<close> and the analog units answer.
\<close>

theorem operations_without_network_witness:
  "device_op disconnected_device Op_len =
     Some (Inl (DeviceNotConnected ''Must connect to BACnet or database''))
   \<and> not_connected (device_op disconnected_device (Op_getitem (KName ''temp'')))
   \<and> not_connected (device_op disconnected_device (Op_poll (PStr ''start'') 10))
   \<and> device_op restored_device (Op_poll (PStr ''start'') 10) =
     Some (Inl (DeviceNotConnected ''Must connect to BACnet or database''))
   \<and> device_op restored_device (Op_setitem ''temp'' (PInt 21)) =
     Some (Inl (DeviceNotConnected ''Must connect to BACnet or database''))
   \<and> device_op restored_device Op_len = Some (Inr (RInt 1))
   \<and> device_op restored_device (Op_getitem (KName ''temp'')) = Some (Inr (RPoint offline_point))
   \<and> \<not> not_connected (device_op restored_device (Op_getitem (KName ''temp'')))
   \<and> device_op restored_device Op_analog_units =
     Some (Inr (RDict [(''temp'', PStr ''degreesCelsius'')]))"
proof -
  have st: "dclass disconnected_device = DeviceDisconnected" "dclass restored_device = DeviceFromDB"
    by (simp_all add: disconnected_device_def restored_device_def disconnected_device_db_def)
  have pts: "length (points restored_device) = 1"
    by (simp add: restored_device_def)
  have v: "device_op disconnected_device Op_len =
     Some (Inl (DeviceNotConnected ''Must connect to BACnet or database''))"
    "device_op restored_device (Op_getitem (KName ''temp'')) = Some (Inr (RPoint offline_point))"
    "analog_units restored_device = [(''temp'', PStr ''degreesCelsius'')]"
    by code_simp+
  have a: "not_connected (device_op disconnected_device (Op_getitem (KName ''temp'')))"
    using operations_without_network[of disconnected_device "Op_getitem (KName ''temp'')"] st(1)
    by blast
  have b: "not_connected (device_op disconnected_device (Op_poll (PStr ''start'') 10))"
    using operations_without_network[of disconnected_device "Op_poll (PStr ''start'') 10"] st(1)
    by blast
  have c: "device_op restored_device (Op_poll (PStr ''start'') 10) =
     Some (Inl (DeviceNotConnected ''Must connect to BACnet or database''))"
    using operations_without_network[of restored_device "Op_poll (PStr ''start'') 10"] st(2)
    by blast
  have d: "device_op restored_device (Op_setitem ''temp'' (PInt 21)) =
     Some (Inl (DeviceNotConnected ''Must connect to BACnet or database''))"
    using operations_without_network[of restored_device "Op_setitem ''temp'' (PInt 21)"] st(2)
    by blast
  have e: "device_op restored_device Op_len = Some (Inr (RInt (length (points restored_device))))"
    and f: "device_op restored_device Op_analog_units =
      Some (Inr (RDict (analog_units restored_device)))"
    using operations_without_network[of restored_device Op_len] st(2) by blast+
  have g: "\<not> not_connected (device_op restored_device (Op_getitem (KName ''temp'')))"
    using operations_without_network[of restored_device "Op_getitem (KName ''temp'')"] st(2)
    by blast
  from a b c d g show ?thesis
    by (simp only: v e f pts simp_thms)
qed

text \<open>
  C7, counterexample to the claim as stated: a device in state \<^verbatim>\<open>DeviceFromDB\<close>
  answers its length, the lookup of a point by name and the iteration over its points;
  none of them raises.
\<close>

theorem restored_device_answers_counterexample:
  "dclass restored_device = DeviceFromDB
   \<and> device_op restored_device Op_len = Some (Inr (RInt 1))
   \<and> device_op restored_device (Op_findPoint ''temp'') = Some (Inr (RPoint offline_point))
   \<and> device_op restored_device Op_iter = Some (Inr (RPoints [offline_point]))
   \<and> \<not> not_connected (device_op restored_device Op_len)"
  by code_simp

end
